theory Spec2Isabelle
  imports Main "HOL-Library.Char_ord" "HOL-Library.List_Lexorder"
begin

chapter \<open>The model\<close>

section \<open>Kubernetes object types used by the renderers\<close>

text \<open>
  The structs of \<open>k8s.io/api\<close> are records holding the fields the operator's sources set
  or read; a field a composite literal leaves out has Go's zero value (the empty string,
  \<open>0\<close>, \<open>[]\<close>, \<open>None\<close> for a nil pointer, the empty map). A Go \<open>map[string]string\<close> is a
  partial map, and \<open>m[k]\<close> on a missing key yields the zero value.
\<close>

record TypeMeta =
  Kind :: string
  APIVersion :: string

record ObjectMeta =
  Name :: string
  Namespace :: string
  Labels :: "string \<rightharpoonup> string"
  Annotations :: "string \<rightharpoonup> string"

definition go_index :: "(string \<rightharpoonup> string) \<Rightarrow> string \<Rightarrow> string" where
  "go_index m k = (case m k of None \<Rightarrow> [] | Some v \<Rightarrow> v)"

definition no_TypeMeta :: TypeMeta where
  "no_TypeMeta = \<lparr>Kind = [], APIVersion = []\<rparr>"

definition meta_named :: "string \<Rightarrow> string \<Rightarrow> ObjectMeta" where
  "meta_named n ns = \<lparr>Name = n, Namespace = ns, Labels = Map.empty, Annotations = Map.empty\<rparr>"

record ConfigMap =
  ConfigMap_Type :: TypeMeta
  ConfigMap_Meta :: ObjectMeta
  Data :: "string \<rightharpoonup> string"

record Secret =
  Secret_Type :: TypeMeta
  Secret_Meta :: ObjectMeta
  Secret_Data :: "string \<rightharpoonup> string"

record Namespace_obj =
  Namespace_Type :: TypeMeta
  Namespace_Meta :: ObjectMeta

record ServiceAccount =
  ServiceAccount_Type :: TypeMeta
  ServiceAccount_Meta :: ObjectMeta
  Secrets :: "string list"

record ConfigMapKeySelector =
  KeyRef_Name :: string
  KeyRef_Key :: string

record EnvVar =
  EnvVar_Name :: string
  EnvVar_Value :: string
  EnvVar_ValueFrom :: "ConfigMapKeySelector option"

definition env_value :: "string \<Rightarrow> string \<Rightarrow> EnvVar" where
  "env_value n v = \<lparr>EnvVar_Name = n, EnvVar_Value = v, EnvVar_ValueFrom = None\<rparr>"

record VolumeMount =
  VolumeMount_Name :: string
  MountPath :: string
  ReadOnly :: bool

datatype ProbeHandler =
    NoHandler
  | HTTPGet string int string
  | Exec "string list"

record Probe =
  Probe_Handler :: ProbeHandler
  InitialDelaySeconds :: int
  PeriodSeconds :: int
  FailureThreshold :: int

record ResourceRequirements =
  Limits :: "string \<rightharpoonup> string"
  Requests :: "string \<rightharpoonup> string"

definition no_Resources :: ResourceRequirements where
  "no_Resources = \<lparr>Limits = Map.empty, Requests = Map.empty\<rparr>"

record Container =
  Container_Name :: string
  Image :: string
  Args :: "string list"
  Env :: "EnvVar list"
  Resources :: ResourceRequirements
  VolumeMounts :: "VolumeMount list"
  LivenessProbe :: "Probe option"
  ReadinessProbe :: "Probe option"

record KeyToPath =
  KeyToPath_Key :: string
  KeyToPath_Path :: string

datatype VolumeSource =
    HostPath string string
  | ConfigMapVolume string "KeyToPath list"
  | SecretVolume string "bool option" "KeyToPath list"
  | EmptyDir "string option"
  | OtherVolumeSource string

record Volume =
  Volume_Name :: string
  Volume_Source :: VolumeSource

record Toleration =
  Toleration_Key :: string
  Toleration_Operator :: string
  Toleration_Value :: string
  Toleration_Effect :: string

record PodSpec =
  NodeSelector :: "string \<rightharpoonup> string"
  ServiceAccountName :: string
  Tolerations :: "Toleration list"
  ImagePullSecrets :: "string list"
  Containers :: "Container list"
  Volumes :: "Volume list"

record PodTemplateSpec =
  Template_Meta :: ObjectMeta
  Template_Spec :: PodSpec

record DeploymentSpec =
  Replicas :: "int option"
  Strategy :: string
  Selector :: "string \<rightharpoonup> string"
  Template :: PodTemplateSpec

record Deployment =
  Deployment_Type :: TypeMeta
  Deployment_Meta :: ObjectMeta
  Deployment_Spec :: DeploymentSpec

record APIServiceSpec =
  Group :: string
  VersionPriority :: int
  GroupPriorityMinimum :: int
  ServiceRef_Name :: string
  ServiceRef_Namespace :: string
  Version :: string
  InsecureSkipTLSVerify :: bool

record APIService =
  APIService_Type :: TypeMeta
  APIService_Meta :: ObjectMeta
  APIService_Spec :: APIServiceSpec

record ServicePort =
  ServicePort_Name :: string
  Port :: int
  Protocol :: string
  TargetPort :: int

record Service =
  Service_Type :: TypeMeta
  Service_Meta :: ObjectMeta
  Ports :: "ServicePort list"
  Service_Selector :: "string \<rightharpoonup> string"

record PolicyRule =
  APIGroups :: "string list"
  Rule_Resources :: "string list"
  Verbs :: "string list"

record ClusterRole =
  ClusterRole_Type :: TypeMeta
  ClusterRole_Meta :: ObjectMeta
  Rules :: "PolicyRule list"

record Subject =
  Subject_Kind :: string
  Subject_Name :: string
  Subject_APIGroup :: string
  Subject_Namespace :: string

record RoleRef =
  RoleRef_Kind :: string
  RoleRef_Name :: string
  RoleRef_APIGroup :: string

record RoleBinding =
  Binding_Type :: TypeMeta
  Binding_Meta :: ObjectMeta
  Subjects :: "Subject list"
  Binding_RoleRef :: RoleRef

record CronJob =
  CronJob_Type :: TypeMeta
  CronJob_Meta :: ObjectMeta

text \<open>
  \<open>runtime.Object\<close> and \<open>client.Object\<close> are interfaces; the values the renderers put
  behind them are the kinds below. \<open>ClusterRoleBinding\<close> and \<open>RoleBinding\<close> have the same
  fields and differ in the constructor.
\<close>

datatype k8s_object =
    NamespaceObj Namespace_obj
  | SecretObj Secret
  | ConfigMapObj ConfigMap
  | ServiceAccountObj ServiceAccount
  | DeploymentObj Deployment
  | CronJobObj CronJob
  | APIServiceObj APIService
  | ServiceObj Service
  | ClusterRoleObj ClusterRole
  | ClusterRoleBindingObj RoleBinding
  | RoleBindingObj RoleBinding

fun object_type :: "k8s_object \<Rightarrow> TypeMeta" where
  "object_type (NamespaceObj x) = Namespace_Type x"
| "object_type (SecretObj x) = Secret_Type x"
| "object_type (ConfigMapObj x) = ConfigMap_Type x"
| "object_type (ServiceAccountObj x) = ServiceAccount_Type x"
| "object_type (DeploymentObj x) = Deployment_Type x"
| "object_type (CronJobObj x) = CronJob_Type x"
| "object_type (APIServiceObj x) = APIService_Type x"
| "object_type (ServiceObj x) = Service_Type x"
| "object_type (ClusterRoleObj x) = ClusterRole_Type x"
| "object_type (ClusterRoleBindingObj x) = Binding_Type x"
| "object_type (RoleBindingObj x) = Binding_Type x"

fun object_meta :: "k8s_object \<Rightarrow> ObjectMeta" where
  "object_meta (NamespaceObj x) = Namespace_Meta x"
| "object_meta (SecretObj x) = Secret_Meta x"
| "object_meta (ConfigMapObj x) = ConfigMap_Meta x"
| "object_meta (ServiceAccountObj x) = ServiceAccount_Meta x"
| "object_meta (DeploymentObj x) = Deployment_Meta x"
| "object_meta (CronJobObj x) = CronJob_Meta x"
| "object_meta (APIServiceObj x) = APIService_Meta x"
| "object_meta (ServiceObj x) = Service_Meta x"
| "object_meta (ClusterRoleObj x) = ClusterRole_Meta x"
| "object_meta (ClusterRoleBindingObj x) = Binding_Meta x"
| "object_meta (RoleBindingObj x) = Binding_Meta x"

definition kind_and_name :: "k8s_object \<Rightarrow> string \<times> string" where
  "kind_and_name obj = (Kind (object_type obj), Name (object_meta obj))"

section \<open>Package cloudconfig\<close>

record CloudConfig =
  tenantId :: string
  tenantName :: string
  externalESDomain :: string
  externalKibanaDomain :: string
  enableMTLS :: bool

definition CloudConfigConfigMapName :: string where
  "CloudConfigConfigMapName = ''tigera-secure-cloud-config''"

text \<open>\<open>strconv.FormatBool\<close> and \<open>strconv.ParseBool\<close> of the Go standard library.\<close>

definition FormatBool :: "bool \<Rightarrow> string" where
  "FormatBool b = (if b then ''true'' else ''false'')"

definition ParseBool :: "string \<Rightarrow> bool option" where
  "ParseBool str =
     (if str \<in> set [''1'', ''t'', ''T'', ''TRUE'', ''true'', ''True''] then Some True
      else if str \<in> set [''0'', ''f'', ''F'', ''FALSE'', ''false'', ''False''] then Some False
      else None)"

datatype cloudconfig_error =
    NotSet string
  | MustBeBool string

definition NewCloudConfig :: "string \<Rightarrow> string \<Rightarrow> string \<Rightarrow> string \<Rightarrow> bool \<Rightarrow> CloudConfig" where
  "NewCloudConfig tid tname es kibana mtls =
     \<lparr>tenantId = tid, tenantName = tname, externalESDomain = es,
      externalKibanaDomain = kibana, enableMTLS = mtls\<rparr>"

text \<open>
  \<open>NewCloudConfigFromConfigMap\<close>: the four string keys must be non-empty, in the order the
  source tests them; an empty or absent \<open>enableMTLS\<close> means false, any other text must parse.
  The argument is the config map a non-nil pointer refers to.
\<close>

definition NewCloudConfigFromConfigMap :: "ConfigMap \<Rightarrow> cloudconfig_error + CloudConfig" where
  "NewCloudConfigFromConfigMap configMap =
     (if go_index (Data configMap) ''tenantId'' = [] then Inl (NotSet ''tenantId'')
      else if go_index (Data configMap) ''tenantName'' = [] then Inl (NotSet ''tenantName'')
      else if go_index (Data configMap) ''externalESDomain'' = [] then Inl (NotSet ''externalESDomain'')
      else if go_index (Data configMap) ''externalKibanaDomain'' = []
        then Inl (NotSet ''externalKibanaDomain'')
      else if go_index (Data configMap) ''enableMTLS'' = [] then
        Inr (NewCloudConfig (go_index (Data configMap) ''tenantId'')
               (go_index (Data configMap) ''tenantName'')
               (go_index (Data configMap) ''externalESDomain'')
               (go_index (Data configMap) ''externalKibanaDomain'') False)
      else (case ParseBool (go_index (Data configMap) ''enableMTLS'') of
              None \<Rightarrow> Inl (MustBeBool (go_index (Data configMap) ''enableMTLS''))
            | Some mtls \<Rightarrow>
                Inr (NewCloudConfig (go_index (Data configMap) ''tenantId'')
                       (go_index (Data configMap) ''tenantName'')
                       (go_index (Data configMap) ''externalESDomain'')
                       (go_index (Data configMap) ''externalKibanaDomain'') mtls)))"

text \<open>
  \<open>CloudConfig.ConfigMap\<close>. The namespace is what \<open>common.OperatorNamespace()\<close> returns; that
  function lives outside the source files modelled here and is taken as the parameter \<open>opns\<close>.
\<close>

definition CloudConfig_ConfigMap :: "string \<Rightarrow> CloudConfig \<Rightarrow> ConfigMap" where
  "CloudConfig_ConfigMap opns c =
     \<lparr>ConfigMap_Type = no_TypeMeta,
      ConfigMap_Meta = meta_named CloudConfigConfigMapName opns,
      Data = [''tenantId'' \<mapsto> tenantId c,
              ''tenantName'' \<mapsto> tenantName c,
              ''externalESDomain'' \<mapsto> externalESDomain c,
              ''externalKibanaDomain'' \<mapsto> externalKibanaDomain c,
              ''enableMTLS'' \<mapsto> FormatBool (enableMTLS c)]\<rparr>"

section \<open>Package render: the API server (operator v1alpha1)\<close>

text \<open>
  The \<open>Core\<close> custom resource, with the fields of its spec that the renderer reads. The
  product variant is a string type in Go.
\<close>

record APIServerSpec =
  ImageOverride :: string
  ExtraVolumeMounts :: "VolumeMount list"
  ExtraVolumes :: "Volume list"
  APIServer_Tolerations :: "Toleration list"

record CoreSpec =
  Core_Version :: string
  Core_Variant :: string
  Core_Registry :: string
  ImagePullSecretsRef :: "string list"
  Components_APIServer :: APIServerSpec

record Core =
  Core_Spec :: CoreSpec

text \<open>
  Modelled from the spec: the constant \<open>TigeraSecureEnterprise\<close> of the API packages,
  whose declaration is missing from the source files. The status message that the
  specification quotes, "Waiting for network to be TigeraSecureEnterprise", is the source's
  \<open>fmt.Sprintf("Waiting for network to be %s", operatorv1.TigeraSecureEnterprise)\<close>, which
  fixes the constant's text.
\<close>

definition TigeraSecureEnterprise :: string where
  "TigeraSecureEnterprise = ''TigeraSecureEnterprise''"

text \<open>
  \<open>setCustomVolumeMounts\<close>, \<open>setCustomVolumes\<close> and \<open>setCustomTolerations\<close> belong to
  package render but not to the source files modelled here; they are parameters of the renderer.
\<close>

record custom_setters =
  setCustomVolumeMounts :: "VolumeMount list \<Rightarrow> VolumeMount list \<Rightarrow> VolumeMount list"
  setCustomVolumes :: "Volume list \<Rightarrow> Volume list \<Rightarrow> Volume list"
  setCustomTolerations :: "Toleration list \<Rightarrow> Toleration list \<Rightarrow> Toleration list"

definition defaultAPIServerImageName :: string where
  "defaultAPIServerImageName = ''tigera/apiserver''"

definition defaultQueryServerImageName :: string where
  "defaultQueryServerImageName = ''tigera/queryserver''"

definition apiServerPort :: int where
  "apiServerPort = 5443"

definition queryServerPort :: int where
  "queryServerPort = 8080"

definition apiService :: "Core \<Rightarrow> APIService" where
  "apiService cr =
     \<lparr>APIService_Type = \<lparr>Kind = ''APIService'', APIVersion = ''apiregistration.k8s.io/v1beta1''\<rparr>,
      APIService_Meta = meta_named ''v3.projectcalico.org'' [],
      APIService_Spec =
        \<lparr>Group = ''projectcalico.org'', VersionPriority = 200, GroupPriorityMinimum = 200,
         ServiceRef_Name = ''tigera-api'', ServiceRef_Namespace = ''tigera-system'',
         Version = ''v3'', InsecureSkipTLSVerify = True\<rparr>\<rparr>"

definition tieredPolicyPassthruClusterRole :: "Core \<Rightarrow> ClusterRole" where
  "tieredPolicyPassthruClusterRole cr =
     \<lparr>ClusterRole_Type = \<lparr>Kind = ''ClusterRole'', APIVersion = ''rbac.authorization.k8s.io/v1beta1''\<rparr>,
      ClusterRole_Meta = meta_named ''tigera-tiered-policy-passthrough'' [],
      Rules = [\<lparr>APIGroups = [''projectcalico.org''],
                Rule_Resources = [''networkpolicies'', ''globalnetworkpolicies''],
                Verbs = [''*'']\<rparr>]\<rparr>"

definition tieredPolicyPassthruClusterRolebinding :: "Core \<Rightarrow> RoleBinding" where
  "tieredPolicyPassthruClusterRolebinding cr =
     \<lparr>Binding_Type = \<lparr>Kind = ''ClusterRoleBinding'',
                       APIVersion = ''rbac.authorization.k8s.io/v1beta1''\<rparr>,
      Binding_Meta = meta_named ''tigera-tiered-policy-passthrough'' [],
      Subjects =
        [\<lparr>Subject_Kind = ''Group'', Subject_Name = ''system:authenticated'',
          Subject_APIGroup = ''rbac.authorization.k8s.io'', Subject_Namespace = []\<rparr>,
         \<lparr>Subject_Kind = ''Group'', Subject_Name = ''system:unauthenticated'',
          Subject_APIGroup = ''rbac.authorization.k8s.io'', Subject_Namespace = []\<rparr>],
      Binding_RoleRef =
        \<lparr>RoleRef_Kind = ''ClusterRole'', RoleRef_Name = ''tigera-tiered-policy-passthrough'',
         RoleRef_APIGroup = ''rbac.authorization.k8s.io''\<rparr>\<rparr>"

definition delegateAuthClusterRoleBinding :: "Core \<Rightarrow> RoleBinding" where
  "delegateAuthClusterRoleBinding cr =
     \<lparr>Binding_Type = \<lparr>Kind = ''ClusterRoleBinding'',
                       APIVersion = ''rbac.authorization.k8s.io/v1beta1''\<rparr>,
      Binding_Meta = meta_named ''tigera-apiserver-delegate-auth'' [],
      Subjects =
        [\<lparr>Subject_Kind = ''ServiceAccount'', Subject_Name = ''tigera-apiserver'',
          Subject_APIGroup = [], Subject_Namespace = ''tigera-system''\<rparr>],
      Binding_RoleRef =
        \<lparr>RoleRef_Kind = ''ClusterRole'', RoleRef_Name = ''system:auth-delegator'',
         RoleRef_APIGroup = ''rbac.authorization.k8s.io''\<rparr>\<rparr>"

definition authReaderRoleBinding :: "Core \<Rightarrow> RoleBinding" where
  "authReaderRoleBinding cr =
     \<lparr>Binding_Type = \<lparr>Kind = ''RoleBinding'', APIVersion = ''rbac.authorization.k8s.io/v1beta1''\<rparr>,
      Binding_Meta = meta_named ''tigera-auth-reader'' ''tigera-system'',
      Subjects =
        [\<lparr>Subject_Kind = ''ServiceAccount'', Subject_Name = ''tigera-apiserver'',
          Subject_APIGroup = [], Subject_Namespace = ''tigera-system''\<rparr>],
      Binding_RoleRef =
        \<lparr>RoleRef_Kind = ''Role'', RoleRef_Name = ''extension-apiserver-authentication-reader'',
         RoleRef_APIGroup = ''rbac.authorization.k8s.io''\<rparr>\<rparr>"

definition apiServerServiceAccount :: "Core \<Rightarrow> ServiceAccount" where
  "apiServerServiceAccount cr =
     \<lparr>ServiceAccount_Type = \<lparr>Kind = ''ServiceAccount'', APIVersion = ''v1''\<rparr>,
      ServiceAccount_Meta = meta_named ''tigera-apiserver'' ''tigera-system'',
      Secrets = []\<rparr>"

definition apiServerService :: "Core \<Rightarrow> Service" where
  "apiServerService cr =
     \<lparr>Service_Type = \<lparr>Kind = ''Service'', APIVersion = ''v1''\<rparr>,
      Service_Meta = meta_named ''tigera-api'' ''tigera-system'',
      Ports =
        [\<lparr>ServicePort_Name = ''apiserver'', Port = 443, Protocol = ''TCP'',
          TargetPort = apiServerPort\<rparr>,
         \<lparr>ServicePort_Name = ''queryserver'', Port = queryServerPort, Protocol = ''TCP'',
          TargetPort = queryServerPort\<rparr>],
      Service_Selector = [''apiserver'' \<mapsto> ''true'']\<rparr>"

definition defaultAuditPolicy :: string where
  "defaultAuditPolicy =
     ''apiVersion: audit.k8s.io/v1beta1'' @ [CHR 0x0A] @
     ''kind: Policy'' @ [CHR 0x0A] @
     ''rules:'' @ [CHR 0x0A] @
     ''- level: RequestResponse'' @ [CHR 0x0A] @
     ''  omitStages:'' @ [CHR 0x0A] @
     ''  - RequestReceived'' @ [CHR 0x0A] @
     ''  verbs:'' @ [CHR 0x0A] @
     ''  - create'' @ [CHR 0x0A] @
     ''  - patch'' @ [CHR 0x0A] @
     ''  - update'' @ [CHR 0x0A] @
     ''  - delete'' @ [CHR 0x0A] @
     ''  resources:'' @ [CHR 0x0A] @
     ''  - group: projectcalico.org'' @ [CHR 0x0A] @
     ''    resources:'' @ [CHR 0x0A] @
     ''    - globalnetworkpolicies'' @ [CHR 0x0A] @
     ''    - networkpolicies'' @ [CHR 0x0A] @
     ''    - globalnetworksets'' @ [CHR 0x0A] @
     ''    - tiers'' @ [CHR 0x0A] @
     ''    - hostendpoints''"

definition auditPolicyConfigMap :: "Core \<Rightarrow> ConfigMap" where
  "auditPolicyConfigMap cr =
     \<lparr>ConfigMap_Type = \<lparr>Kind = ''ConfigMap'', APIVersion = ''v1''\<rparr>,
      ConfigMap_Meta = meta_named ''tigera-audit-policy'' ''tigera-system'',
      Data = [''config'' \<mapsto> defaultAuditPolicy]\<rparr>"

text \<open>
  \<open>fmt.Sprintf("%s%s:%s", registry, name, version)\<close> concatenates its string operands;
  \<open>fmt.Sprintf("--secure-port=%d", apiServerPort)\<close> prints the constant 5443.
\<close>

definition apiServerContainer :: "custom_setters \<Rightarrow> Core \<Rightarrow> Container" where
  "apiServerContainer h cr =
     (let apiServerImage =
            (if length (ImageOverride (Components_APIServer (Core_Spec cr))) > 0
             then ImageOverride (Components_APIServer (Core_Spec cr))
             else Core_Registry (Core_Spec cr) @ defaultAPIServerImageName @ '':''
                    @ Core_Version (Core_Spec cr));
          volumeMounts =
            setCustomVolumeMounts h
              [\<lparr>VolumeMount_Name = ''tigera-audit-logs'', MountPath = ''/var/log/calico/audit'',
                ReadOnly = False\<rparr>,
               \<lparr>VolumeMount_Name = ''tigera-audit-policy'', MountPath = ''/etc/tigera/audit'',
                ReadOnly = False\<rparr>]
              (ExtraVolumeMounts (Components_APIServer (Core_Spec cr)))
      in \<lparr>Container_Name = ''tigera-apiserver'',
          Image = apiServerImage,
          Args = [''--secure-port=5443'',
                  ''--audit-policy-file=/etc/tigera/audit/policy.conf'',
                  ''--audit-log-path=/var/log/calico/audit/tsee-audit.log''],
          Env = [env_value ''DATASTORE_TYPE'' ''kubernetes''],
          Resources = no_Resources,
          VolumeMounts = volumeMounts,
          LivenessProbe =
            Some \<lparr>Probe_Handler = HTTPGet ''/version'' apiServerPort ''HTTPS'',
                  InitialDelaySeconds = 90, PeriodSeconds = 10, FailureThreshold = 0\<rparr>,
          ReadinessProbe = None\<rparr>)"

definition queryServerContainer :: "Core \<Rightarrow> Container" where
  "queryServerContainer cr =
     (let image =
            (if length (ImageOverride (Components_APIServer (Core_Spec cr))) > 0
             then ImageOverride (Components_APIServer (Core_Spec cr))
             else Core_Registry (Core_Spec cr) @ defaultQueryServerImageName @ '':''
                    @ Core_Version (Core_Spec cr))
      in \<lparr>Container_Name = ''tigera-queryserver'',
          Image = image,
          Args = [],
          Env = [env_value ''LOGLEVEL'' ''info'', env_value ''DATASTORE_TYPE'' ''kubernetes''],
          Resources = no_Resources,
          VolumeMounts = [],
          LivenessProbe =
            Some \<lparr>Probe_Handler = HTTPGet ''/version'' queryServerPort ''HTTPS'',
                  InitialDelaySeconds = 90, PeriodSeconds = 10, FailureThreshold = 0\<rparr>,
          ReadinessProbe = None\<rparr>)"

definition apiServerVolumes :: "custom_setters \<Rightarrow> Core \<Rightarrow> Volume list" where
  "apiServerVolumes h cr =
     setCustomVolumes h
       [\<lparr>Volume_Name = ''tigera-audit-logs'',
         Volume_Source = HostPath ''/var/log/calico/audit'' ''DirectoryOrCreate''\<rparr>,
        \<lparr>Volume_Name = ''tigera-audit-policy'',
         Volume_Source = ConfigMapVolume ''tigera-audit-policy''
           [\<lparr>KeyToPath_Key = ''config'', KeyToPath_Path = ''policy.conf''\<rparr>]\<rparr>]
       (ExtraVolumes (Components_APIServer (Core_Spec cr)))"

definition tolerations :: "custom_setters \<Rightarrow> Core \<Rightarrow> Toleration list" where
  "tolerations h cr =
     setCustomTolerations h
       [\<lparr>Toleration_Key = ''node-role.kubernetes.io/master'', Toleration_Operator = [],
         Toleration_Value = [], Toleration_Effect = ''NoSchedule''\<rparr>]
       (APIServer_Tolerations (Components_APIServer (Core_Spec cr)))"

definition apiServer :: "custom_setters \<Rightarrow> Core \<Rightarrow> Deployment" where
  "apiServer h cr =
     \<lparr>Deployment_Type = \<lparr>Kind = ''Deployment'', APIVersion = ''v1''\<rparr>,
      Deployment_Meta =
        \<lparr>Name = ''tigera-apiserver'', Namespace = ''tigera-system'',
         Labels = [''apiserver'' \<mapsto> ''true'', ''k8s-app'' \<mapsto> ''tigera-apiserver''],
         Annotations = Map.empty\<rparr>,
      Deployment_Spec =
        \<lparr>Replicas = Some 1,
         Strategy = ''Recreate'',
         Selector = [''apiserver'' \<mapsto> ''true''],
         Template =
           \<lparr>Template_Meta =
              \<lparr>Name = ''tigera-apiserver'', Namespace = ''tigera-system'',
               Labels = [''apiserver'' \<mapsto> ''true'', ''k8s-app'' \<mapsto> ''tigera-apiserver''],
               Annotations = Map.empty\<rparr>,
            Template_Spec =
              \<lparr>NodeSelector = [''beta.kubernetes.io/os'' \<mapsto> ''linux''],
               ServiceAccountName = ''tigera-apiserver'',
               Tolerations = tolerations h cr,
               ImagePullSecrets = ImagePullSecretsRef (Core_Spec cr),
               Containers = [apiServerContainer h cr, queryServerContainer cr],
               Volumes = apiServerVolumes h cr\<rparr>\<rparr>\<rparr>\<rparr>"

text \<open>\<open>APIServer\<close>: a nil slice is the empty list.\<close>

definition APIServer :: "custom_setters \<Rightarrow> Core \<Rightarrow> k8s_object list" where
  "APIServer h cr =
     (if Core_Variant (Core_Spec cr) \<noteq> TigeraSecureEnterprise then []
      else [DeploymentObj (apiServer h cr),
            ConfigMapObj (auditPolicyConfigMap cr),
            ServiceAccountObj (apiServerServiceAccount cr),
            APIServiceObj (apiService cr),
            ServiceObj (apiServerService cr),
            ClusterRoleObj (tieredPolicyPassthruClusterRole cr),
            ClusterRoleBindingObj (tieredPolicyPassthruClusterRolebinding cr),
            ClusterRoleBindingObj (delegateAuthClusterRoleBinding cr),
            RoleBindingObj (authReaderRoleBinding cr)])"

section \<open>Package render: cloud additions to the manager\<close>

text \<open>
  \<open>ManagerCloudResources\<close> with the two resource structs it points to; a nil pointer is
  \<open>None\<close>. The names of package \<open>rcimageassurance\<close> are constants declared outside the
  files at hand and are parameters.
\<close>

record ImageAssuranceResources_t =
  ConfigurationConfigMap :: "ConfigMap option"
  TLSSecret :: "Secret option"

record CloudRBACResources_t =
  RBAC_TLSSecret :: "Secret option"
  NamespaceName :: string
  ServiceName :: string

record ManagerCloudResources =
  TenantID :: string
  CloudRBACResources :: "CloudRBACResources_t option"
  ImageAssuranceResources :: "ImageAssuranceResources_t option"

record rcimageassurance_names =
  ConfigurationConfigMapName :: string
  ConfigurationConfigMapOrgIDKey :: string
  ScannerCLITokenSecretName :: string
  ScannerCLIDownloadURL :: string

text \<open>
  What one key of \<open>ManagerExtraEnv\<close> contributes in the loop over \<open>sortedKeys\<close>: the two
  legacy keys are translated, every other key is passed on under its own name.
\<close>

definition extraEnvFor :: "(string \<rightharpoonup> string) \<Rightarrow> string \<Rightarrow> EnvVar list" where
  "extraEnvFor ManagerExtraEnv key =
     (let val = go_index ManagerExtraEnv key
      in if key = ''portalAPIURL''
         then [env_value ''CNX_PORTAL_URL'' val, env_value ''ENABLE_PORTAL_SUPPORT'' ''true'']
         else if key = ''auth0OrgID'' then [env_value ''CNX_AUTH0_ORG_ID'' val]
         else [env_value key val])"

fun appendExtraEnv :: "(string \<rightharpoonup> string) \<Rightarrow> string list \<Rightarrow> EnvVar list \<Rightarrow> EnvVar list" where
  "appendExtraEnv ManagerExtraEnv [] envs = envs"
| "appendExtraEnv ManagerExtraEnv (key # keys) envs =
     appendExtraEnv ManagerExtraEnv keys (envs @ extraEnvFor ManagerExtraEnv key)"

text \<open>
  \<open>setManagerCloudEnvs\<close>. The package variable \<open>ManagerExtraEnv\<close> is the map argument. Go
  visits the keys of a map in an unspecified order: \<open>range_order\<close> is the order in which
  \<open>for k := range ManagerExtraEnv\<close> delivers them on this call, so it is some enumeration
  of the map's keys, each once. \<open>sort.Strings\<close> orders strings bytewise, as the
  lexicographic order on \<open>string\<close> does.
\<close>

definition setManagerCloudEnvs ::
  "rcimageassurance_names \<Rightarrow> ManagerCloudResources \<Rightarrow> (string \<rightharpoonup> string) \<Rightarrow> string list
     \<Rightarrow> EnvVar list \<Rightarrow> EnvVar list" where
  "setManagerCloudEnvs names CloudResources ManagerExtraEnv range_order envs0 =
     (let envs = envs0 @ [env_value ''ENABLE_MANAGED_CLUSTERS_ONLY'' ''true'',
                          env_value ''LICENSE_EDITION'' ''cloudEdition''];
          envs = (if ImageAssuranceResources CloudResources \<noteq> None
                  then envs @
                    [env_value ''ENABLE_IMAGE_ASSURANCE_SUPPORT'' ''true'',
                     env_value ''CNX_IMAGE_ASSURANCE_API_URL'' ''/bast/v1'',
                     \<lparr>EnvVar_Name = ''CNX_IMAGE_ASSURANCE_ORGANIZATION_ID'', EnvVar_Value = [],
                      EnvVar_ValueFrom =
                        Some \<lparr>KeyRef_Name = ConfigurationConfigMapName names,
                              KeyRef_Key = ConfigurationConfigMapOrgIDKey names\<rparr>\<rparr>,
                     env_value ''IMAGE_ASSURANCE_SCANNER_CLI_TOKEN_SECRET_NAME''
                       (ScannerCLITokenSecretName names),
                     env_value ''IMAGE_ASSURANCE_SCANNER_CLI_DOWNLOAD_URL''
                       (ScannerCLIDownloadURL names)]
                  else envs);
          sortedKeys = sort range_order
      in appendExtraEnv ManagerExtraEnv sortedKeys envs)"

section \<open>Package runtimesecurity: the renderer\<close>

definition NameSpaceRuntimeSecurity :: string where
  "NameSpaceRuntimeSecurity = ''tigera-runtime-security''"

definition ElasticsearchSashaJobUserSecretName :: string where
  "ElasticsearchSashaJobUserSecretName = ''tigera-ee-sasha-elasticsearch-access''"

definition SashaName :: string where
  "SashaName = ''sasha''"

definition SashaVerifyAuthVolumeName :: string where
  "SashaVerifyAuthVolumeName = ''cc-client-credentials''"

definition SashaVerifyAuthPath :: string where
  "SashaVerifyAuthPath = ''/var/run/calico-cloud/api''"

definition SashaVerifyAuthFile :: string where
  "SashaVerifyAuthFile = ''/var/run/calico-cloud/api/clientCredentials.yaml''"

definition ThreatIdName :: string where
  "ThreatIdName = ''threat-id''"

definition SashaHistoryVolumeName :: string where
  "SashaHistoryVolumeName = ''history''"

definition SashaHistoryVolumeSizeLimit :: string where
  "SashaHistoryVolumeSizeLimit = ''100Mi''"

definition SashaHistoryVolumeMountPath :: string where
  "SashaHistoryVolumeMountPath = ''/history''"

definition SashaHistoryRetentionPeriod :: string where
  "SashaHistoryRetentionPeriod = ''6h''"

definition OSTypeLinux :: string where
  "OSTypeLinux = ''linux''"

text \<open>
  The structs of the API package that \<open>Config\<close> points to, with the fields the renderer
  and the reconcilers read. A pointer field is an option. \<open>TrustedBundle\<close> is an interface:
  the value behind it is the record of what its four methods return.
\<close>

record InstallationSpec =
  Registry :: string
  ImagePath :: string
  ImagePrefix :: string
  KubernetesProvider :: string
  ControlPlaneNodeSelector :: "string \<rightharpoonup> string"
  ControlPlaneTolerations :: "Toleration list"

record ClusterConfig =
  ClusterName :: string

record TrustedBundle =
  TrustedBundle_ConfigMap :: "string \<Rightarrow> ConfigMap"
  HashAnnotations :: "string \<rightharpoonup> string"
  TrustedBundle_Volume :: Volume
  TrustedBundle_VolumeMounts :: "string \<Rightarrow> VolumeMount list"

record RuntimeSecuritySpec =
  Sasha_Resources :: "ResourceRequirements option"
  ThreatId_Resources :: "ResourceRequirements option"

record ImageSet =
  ImageSet_Name :: string
  Images :: "(string \<times> string) list"

record Config =
  PullSecrets :: "Secret list"
  Installation :: "InstallationSpec option"
  OsType :: string
  SashaESSecrets :: "Secret list"
  ESClusterConfig :: "ClusterConfig option"
  ESSecrets :: "Secret list"
  ClusterDomain :: string
  TrustedBundle :: "TrustedBundle option"
  RuntimeSecuritySpec :: "RuntimeSecuritySpec option"
  sashaImage :: string
  threatIdImage :: string

datatype go_panic =
    NilPointerDereference
  | TypeAssertionFailed

text \<open>
  Functions and constants of other packages of the repository (\<open>render\<close>, \<open>secret\<close>,
  \<open>relasticsearch\<close>, \<open>components\<close>) and the two methods \<open>sashaCronJob\<close> and
  \<open>oldSashaServiceAccount\<close> of the component, none of them in the source files modelled here, are
  parameters. They are functions of their arguments. \<open>DecorateAnnotations\<close> returns an
  interface value on which the source asserts the type \<open>*corev1.PodTemplateSpec\<close>:
  \<open>None\<close> is a value of another type.
\<close>

record render_helpers =
  CreateNamespace :: "string \<Rightarrow> string \<Rightarrow> string \<Rightarrow> Namespace_obj"
  PSSPrivileged :: string
  CopyToNamespace :: "string \<Rightarrow> Secret list \<Rightarrow> Secret list"
  ToRuntimeObjects :: "Secret list \<Rightarrow> k8s_object list"
  GetReferenceList :: "Secret list \<Rightarrow> string list"
  DecorateAnnotations :: "PodTemplateSpec \<Rightarrow> ClusterConfig option \<Rightarrow> Secret list
    \<Rightarrow> PodTemplateSpec option"
  ContainerDecorate :: "Container \<Rightarrow> string \<Rightarrow> string \<Rightarrow> string \<Rightarrow> string \<Rightarrow> Container"
  GetReference :: "string \<Rightarrow> string \<Rightarrow> string \<Rightarrow> string \<Rightarrow> ImageSet option \<Rightarrow> string + string"
  ComponentSasha :: string
  ComponentThreatId :: string
  sashaCronJob :: "Config \<Rightarrow> CronJob"
  oldSashaServiceAccount :: "Config \<Rightarrow> ServiceAccount"

definition SupportedOSType :: string where
  "SupportedOSType = OSTypeLinux"

definition sashaServiceAccount :: "Config \<Rightarrow> ServiceAccount" where
  "sashaServiceAccount config =
     \<lparr>ServiceAccount_Type = \<lparr>Kind = ''ServiceAccount'', APIVersion = ''v1''\<rparr>,
      ServiceAccount_Meta = meta_named SashaName NameSpaceRuntimeSecurity,
      Secrets = []\<rparr>"

text \<open>
  \<open>sashaDeployment\<close>. The method dereferences \<open>c.config.Installation\<close>, the trusted bundle,
  \<open>c.config.RuntimeSecuritySpec\<close> with the two \<open>Resources\<close> pointers under it and
  \<open>c.config.ESClusterConfig\<close>; a nil one panics.
\<close>

definition sashaDeployment :: "render_helpers \<Rightarrow> Config \<Rightarrow> go_panic + Deployment" where
  "sashaDeployment h config =
     (let envVars = [env_value ''SASHA_SECRETLOCATION'' SashaVerifyAuthFile,
                     env_value ''SASHA_HISTORYDIR'' SashaHistoryVolumeMountPath,
                     env_value ''SASHA_HISTORYRETENTION'' SashaHistoryRetentionPeriod];
          rsSecretOptional = False;
          numReplica = (1::int);
          grpcProbe = \<lparr>Probe_Handler =
                         Exec [''bin/grpc_health_probe-linux-amd64'', ''-addr'', ''127.0.0.1:50051''],
                       InitialDelaySeconds = 0, PeriodSeconds = 2, FailureThreshold = 6\<rparr>;
          historyVolumeSizeLimit = SashaHistoryVolumeSizeLimit
      in case (TrustedBundle config, Installation config, RuntimeSecuritySpec config,
               ESClusterConfig config) of
           (Some bundle, Some installation, Some spec, Some es) \<Rightarrow>
             (case (Sasha_Resources spec, ThreatId_Resources spec) of
                (Some sashaResources, Some threatIdResources) \<Rightarrow>
                  (case DecorateAnnotations h
                      \<lparr>Template_Meta =
                         \<lparr>Name = SashaName, Namespace = NameSpaceRuntimeSecurity,
                          Labels = [''k8s-app'' \<mapsto> SashaName],
                          Annotations = HashAnnotations bundle\<rparr>,
                       Template_Spec =
                         \<lparr>NodeSelector = ControlPlaneNodeSelector installation,
                          ServiceAccountName = SashaName,
                          Tolerations = ControlPlaneTolerations installation,
                          ImagePullSecrets = GetReferenceList h (PullSecrets config),
                          Containers =
                            [ContainerDecorate h
                               \<lparr>Container_Name = SashaName,
                                Image = sashaImage config,
                                Args = [],
                                Env = envVars,
                                Resources = sashaResources,
                                VolumeMounts =
                                  TrustedBundle_VolumeMounts bundle SupportedOSType @
                                  [\<lparr>VolumeMount_Name = SashaVerifyAuthVolumeName,
                                    MountPath = SashaVerifyAuthPath, ReadOnly = False\<rparr>,
                                   \<lparr>VolumeMount_Name = SashaHistoryVolumeName,
                                    MountPath = SashaHistoryVolumeMountPath, ReadOnly = False\<rparr>],
                                LivenessProbe = None,
                                ReadinessProbe = None\<rparr>
                               (ClusterName es)
                               ElasticsearchSashaJobUserSecretName
                               (ClusterDomain config)
                               (OsType config),
                             \<lparr>Container_Name = ThreatIdName,
                              Image = threatIdImage config,
                              Args = [],
                              Env = [],
                              Resources = threatIdResources,
                              VolumeMounts =
                                [\<lparr>VolumeMount_Name = SashaHistoryVolumeName,
                                  MountPath = SashaHistoryVolumeMountPath, ReadOnly = False\<rparr>],
                              LivenessProbe = Some grpcProbe,
                              ReadinessProbe = Some grpcProbe\<rparr>],
                          Volumes =
                            [\<lparr>Volume_Name = SashaVerifyAuthVolumeName,
                              Volume_Source =
                                SecretVolume ''tigera-calico-cloud-client-credentials''
                                  (Some rsSecretOptional) []\<rparr>,
                             \<lparr>Volume_Name = SashaHistoryVolumeName,
                              Volume_Source = EmptyDir (Some historyVolumeSizeLimit)\<rparr>,
                             TrustedBundle_Volume bundle]\<rparr>\<rparr>
                      (ESClusterConfig config) (ESSecrets config) of
                     None \<Rightarrow> Inl TypeAssertionFailed
                   | Some template \<Rightarrow>
                       Inr \<lparr>Deployment_Type = \<lparr>Kind = ''Deployment'', APIVersion = ''apps/v1''\<rparr>,
                            Deployment_Meta =
                              \<lparr>Name = SashaName, Namespace = NameSpaceRuntimeSecurity,
                               Labels = [''k8s-app'' \<mapsto> SashaName],
                               Annotations = Map.empty\<rparr>,
                            Deployment_Spec =
                              \<lparr>Replicas = Some numReplica,
                               Strategy = [],
                               Selector = [''k8s-app'' \<mapsto> SashaName],
                               Template = template\<rparr>\<rparr>)
              | _ \<Rightarrow> Inl NilPointerDereference)
         | _ \<Rightarrow> Inl NilPointerDereference)"

text \<open>
  The component holds a pointer to its \<open>Config\<close>, and its methods have pointer receivers:
  a method takes the \<open>Config\<close> as it stands and returns it as the method leaves it.
  \<open>ResolveImages\<close> writes the two calculated image fields (also when a lookup fails, with
  the empty string a failed \<open>GetReference\<close> returns next to its error); \<open>Objects\<close> writes
  nothing. \<open>strings.Join(errMsgs, ",")\<close> is the error text.
\<close>

definition ref_value :: "string + string \<Rightarrow> string" where
  "ref_value r = (case r of Inl err \<Rightarrow> [] | Inr v \<Rightarrow> v)"

definition ref_errors :: "string + string \<Rightarrow> string list" where
  "ref_errors r = (case r of Inl err \<Rightarrow> [err] | Inr v \<Rightarrow> [])"

fun strings_Join :: "string list \<Rightarrow> string \<Rightarrow> string" where
  "strings_Join [] sep = []"
| "strings_Join [x] sep = x"
| "strings_Join (x # y # ys) sep = x @ sep @ strings_Join (y # ys) sep"

datatype resolve_result =
    Resolved
  | ResolveError string
  | ResolvePanic go_panic

definition ResolveImages :: "render_helpers \<Rightarrow> ImageSet option \<Rightarrow> Config \<Rightarrow> resolve_result \<times> Config" where
  "ResolveImages h is config =
     (case Installation config of
        None \<Rightarrow> (ResolvePanic NilPointerDereference, config)
      | Some installation \<Rightarrow>
          (let reg = Registry installation;
               path = ImagePath installation;
               prefix = ImagePrefix installation
           in if OsType config \<noteq> SupportedOSType
              then (ResolveError (''sasha is supported only on '' @ SupportedOSType), config)
              else
                (let sasha = GetReference h (ComponentSasha h) reg path prefix is;
                     threat = GetReference h (ComponentThreatId h) reg path prefix is;
                     errMsgs = ref_errors sasha @ ref_errors threat;
                     config' = config\<lparr>sashaImage := ref_value sasha,
                                       threatIdImage := ref_value threat\<rparr>
                 in if length errMsgs \<noteq> 0
                    then (ResolveError (strings_Join errMsgs '',''), config')
                    else (Resolved, config'))))"

definition Objects ::
  "render_helpers \<Rightarrow> Config \<Rightarrow> (go_panic + k8s_object list \<times> k8s_object list) \<times> Config" where
  "Objects h config =
     (case Installation config of
        None \<Rightarrow> (Inl NilPointerDereference, config)
      | Some installation \<Rightarrow>
          (let objs = [NamespaceObj (CreateNamespace h NameSpaceRuntimeSecurity
                         (KubernetesProvider installation) (PSSPrivileged h))];
               objs = objs @ ToRuntimeObjects h
                         (CopyToNamespace h NameSpaceRuntimeSecurity (PullSecrets config))
           in case TrustedBundle config of
                None \<Rightarrow> (Inl NilPointerDereference, config)
              | Some bundle \<Rightarrow>
                  (let objs = objs @ [ConfigMapObj (TrustedBundle_ConfigMap bundle
                                        NameSpaceRuntimeSecurity)];
                       toDelete = [CronJobObj (sashaCronJob h config),
                                   ServiceAccountObj (oldSashaServiceAccount h config)]
                   in if length (SashaESSecrets config) > 0
                      then (case sashaDeployment h config of
                              Inl p \<Rightarrow> (Inl p, config)
                            | Inr deployment \<Rightarrow>
                                (Inr (objs @ ToRuntimeObjects h
                                         (CopyToNamespace h NameSpaceRuntimeSecurity
                                            (SashaESSecrets config))
                                       @ [ServiceAccountObj (sashaServiceAccount config)]
                                       @ [DeploymentObj deployment],
                                      toDelete), config))
                      else (Inr (objs, toDelete), config))))"

section \<open>Reconcilers: results, errors and the status tracker\<close>

text \<open>
  A Go \<open>error\<close> value is seen by the reconcilers through \<open>errors.IsNotFound(err)\<close> and
  \<open>err.Error()\<close> only. \<open>reconcile.Result\<close> carries the requeue request; a
  \<open>time.Duration\<close> counts nanoseconds.
\<close>

record go_error =
  IsNotFound :: bool
  Error :: string

record Result =
  Requeue :: bool
  RequeueAfter :: int

definition empty_Result :: Result where
  "empty_Result = \<lparr>Requeue = False, RequeueAfter = 0\<rparr>"

definition Second :: int where
  "Second = 1000000000"

text \<open>
  Modelled from the spec: the constant \<open>TigeraStatusReady\<close> of the API package, whose
  declaration is missing from the source files. The specification gives "Ready" as the
  value of the status field \<open>Status.State\<close>.
\<close>

definition TigeraStatusReady :: string where
  "TigeraStatusReady = ''Ready''"

text \<open>
  What a reconcile pass does to the world, in the order it does it: the calls on the status
  tracker, the calls of the apply helper \<open>CreateOrUpdateOrDelete\<close> with a component (the
  helper renders the component and writes its objects to the cluster), and the update of
  the custom resource's status subresource. \<open>StatusSetDegraded\<close> is the tracker's method
  with a reason and a detail text; \<open>StatusSetDegradedErr\<close> is the newer one taking a reason,
  a message and an error. Log lines are left out. Reading from the cluster is no effect.
\<close>

datatype ('cr, 'component) effect =
    StatusOnCRFound
  | StatusOnCRNotFound
  | StatusSetDegraded string string
  | StatusSetDegradedErr string string "go_error option"
  | StatusClearDegraded
  | ApplyComponent 'component
  | UpdateCRStatus 'cr

type_synonym ('cr, 'component) outcome =
  "('cr, 'component) effect list \<times> Result \<times> go_error option"

definition after :: "('cr, 'component) effect list \<Rightarrow> ('cr, 'component) outcome
    \<Rightarrow> ('cr, 'component) outcome" where
  "after done rest = (case rest of (effects, result, err) \<Rightarrow> (done @ effects, result, err))"

text \<open>Two readings of a pass's effects: the messages it degraded the status with, and
  the components it handed to the apply helper.\<close>

fun degraded_messages :: "('cr, 'component) effect list \<Rightarrow> string list" where
  "degraded_messages [] = []"
| "degraded_messages (StatusSetDegraded message detail # effects) =
     message # degraded_messages effects"
| "degraded_messages (StatusSetDegradedErr reason message err # effects) =
     message # degraded_messages effects"
| "degraded_messages (effect # effects) = degraded_messages effects"

fun applied_components :: "('cr, 'component) effect list \<Rightarrow> 'component list" where
  "applied_components [] = []"
| "applied_components (ApplyComponent component # effects) =
     component # applied_components effects"
| "applied_components (effect # effects) = applied_components effects"

text \<open>
  The certificate manager is an object of another package: the record of its two methods.
  A certificate is opaque to the reconcilers, which compare it with nil and pass it on.
\<close>

datatype Certificate = Certificate string

record CertificateManager =
  GetCertificate :: "string \<Rightarrow> string \<Rightarrow> go_error + Certificate option"
  CreateTrustedBundle :: "Certificate option list \<Rightarrow> TrustedBundle"

text \<open>
  The cluster as one reconcile pass finds it: what each read of the API server and each
  helper of packages \<open>utils\<close>, \<open>certificatemanager\<close>, \<open>imageset\<close> and \<open>status\<close> returns
  when the reconciler calls it. These helpers are not in the source files modelled here. The field
  \<open>clusterDomain\<close> is the reconciler's own. \<open>fmt_Errorf\<close> is \<open>fmt.Errorf\<close> for a format
  that is data, with the operands' texts.
\<close>

record cluster =
  GetInstallation :: "go_error + string \<times> InstallationSpec"
  GetNetworkingPullSecrets :: "InstallationSpec \<Rightarrow> go_error + Secret list"
  certificatemanager_Create :: "InstallationSpec \<Rightarrow> string \<Rightarrow> go_error + CertificateManager"
  IsAvailable :: bool
  OperatorNamespace :: string
  clusterDomain :: string
  fmt_Errorf :: "string \<Rightarrow> string list \<Rightarrow> go_error"

section \<open>The RuntimeSecurity reconciler\<close>

record RuntimeSecurity_CR =
  RS_Meta :: ObjectMeta
  RS_Spec :: RuntimeSecuritySpec
  RS_Status_State :: string

record rs_cluster = cluster +
  client_Get_RuntimeSecurity :: "go_error + RuntimeSecurity_CR"
  GetElasticsearchClusterConfig :: "go_error + ClusterConfig"
  ElasticsearchSecrets :: "string list \<Rightarrow> go_error + Secret list"
  PublicCertSecret :: string
  Unknown :: string
  rs_ApplyImageSet :: "string \<Rightarrow> Config \<Rightarrow> go_error option \<times> Config"
  rs_CreateOrUpdateOrDelete :: "RuntimeSecurity_CR \<Rightarrow> Config \<Rightarrow> go_error option"
  rs_Status_Update :: "RuntimeSecurity_CR \<Rightarrow> go_error option"

type_synonym rs_outcome = "(RuntimeSecurity_CR, Config) outcome"

text \<open>The deprecated adapter \<open>ReconcileRuntimeSecurity.SetDegraded\<close>.\<close>

definition RS_SetDegraded :: "rs_cluster \<Rightarrow> string \<Rightarrow> string \<Rightarrow> (RuntimeSecurity_CR, Config) effect" where
  "RS_SetDegraded env message errStr =
     StatusSetDegradedErr (Unknown env) message
       (if errStr \<noteq> [] then Some (fmt_Errorf env errStr []) else None)"

definition getRuntimeSecurity :: "rs_cluster \<Rightarrow> go_error + RuntimeSecurity_CR" where
  "getRuntimeSecurity env =
     (case client_Get_RuntimeSecurity env of
        Inl err \<Rightarrow> Inl err
      | Inr instance \<Rightarrow> Inr instance)"

text \<open>The end of \<open>Reconcile\<close>, from \<open>r.status.ClearDegraded()\<close> on.\<close>

definition RS_finish :: "rs_cluster \<Rightarrow> RuntimeSecurity_CR \<Rightarrow> rs_outcome" where
  "RS_finish env rs =
     (if \<not> IsAvailable env
      then ([StatusClearDegraded], \<lparr>Requeue = False, RequeueAfter = 30 * Second\<rparr>, None)
      else (let rs = rs\<lparr>RS_Status_State := TigeraStatusReady\<rparr>
            in case rs_Status_Update env rs of
                 Some err \<Rightarrow> ([StatusClearDegraded, UpdateCRStatus rs], empty_Result, Some err)
               | None \<Rightarrow> ([StatusClearDegraded, UpdateCRStatus rs], empty_Result, None)))"

text \<open>From \<open>runtimesecurity.RuntimeSecurity(config)\<close> to the apply.\<close>

definition RS_apply :: "rs_cluster \<Rightarrow> RuntimeSecurity_CR \<Rightarrow> string \<Rightarrow> Config \<Rightarrow> rs_outcome" where
  "RS_apply env rs variant config =
     (case rs_ApplyImageSet env variant config of
        (Some err, component) \<Rightarrow>
          ([RS_SetDegraded env ''Error with images from ImageSet'' (Error err)],
           empty_Result, Some err)
      | (None, component) \<Rightarrow>
          (case rs_CreateOrUpdateOrDelete env rs component of
             Some err \<Rightarrow>
               ([ApplyComponent component,
                 RS_SetDegraded env ''Error creating / updating resource'' (Error err)],
                empty_Result, Some err)
           | None \<Rightarrow> after [ApplyComponent component] (RS_finish env rs)))"

text \<open>The prerequisite reads after the variant check, up to the \<open>Config\<close>.\<close>

definition RS_prerequisites ::
  "rs_cluster \<Rightarrow> RuntimeSecurity_CR \<Rightarrow> string \<Rightarrow> InstallationSpec \<Rightarrow> rs_outcome" where
  "RS_prerequisites env rs variant installation =
     (case GetNetworkingPullSecrets env installation of
        Inl err \<Rightarrow>
          ([RS_SetDegraded env ''Error retrieving pull secrets'' (Error err)],
           empty_Result, Some err)
      | Inr pullSecrets \<Rightarrow>
     (case GetElasticsearchClusterConfig env of
        Inl err \<Rightarrow>
          if IsNotFound err
          then ([RS_SetDegraded env
                   ''Elasticsearch cluster configuration is not available, waiting for it to become available''
                   (Error err)],
                empty_Result, None)
          else ([RS_SetDegraded env ''Failed to get the elasticsearch cluster configuration''
                   (Error err)],
                empty_Result, Some err)
      | Inr esClusterConfig \<Rightarrow>
     (case ElasticsearchSecrets env [ElasticsearchSashaJobUserSecretName] of
        Inl err \<Rightarrow>
          if IsNotFound err
          then ([RS_SetDegraded env
                   ''Elasticsearch secrets are not available yet, waiting until they become available''
                   (Error err)],
                empty_Result, None)
          else ([RS_SetDegraded env ''Failed to get Elasticsearch credentials'' (Error err)],
                empty_Result, Some err)
      | Inr ss \<Rightarrow>
     (case certificatemanager_Create env installation (clusterDomain env) of
        Inl err \<Rightarrow>
          ([RS_SetDegraded env ''Unable to create the Tigera CA'' (Error err)],
           empty_Result, Some err)
      | Inr certificateManager \<Rightarrow>
     (case GetCertificate certificateManager (PublicCertSecret env) (OperatorNamespace env) of
        Inl err \<Rightarrow>
          ([RS_SetDegraded env (''Failed to retrieve / validate  '' @ PublicCertSecret env)
              (Error err)],
           empty_Result, Some err)
      | Inr None \<Rightarrow>
          ([RS_SetDegraded env
              ''Elasticsearch gateway certificate are not available yet, waiting until they become available''
              []],
           empty_Result, None)
      | Inr (Some esgwCertificate) \<Rightarrow>
          (let trustedBundle = CreateTrustedBundle certificateManager [Some esgwCertificate];
               config = \<lparr>PullSecrets = pullSecrets,
                         Installation = Some installation,
                         OsType = OSTypeLinux,
                         SashaESSecrets = ss,
                         ESClusterConfig = Some esClusterConfig,
                         ESSecrets = [],
                         ClusterDomain = clusterDomain env,
                         TrustedBundle = Some trustedBundle,
                         RuntimeSecuritySpec = None,
                         sashaImage = [],
                         threatIdImage = []\<rparr>
           in RS_apply env rs variant config))))))"

text \<open>\<open>ReconcileRuntimeSecurity.Reconcile\<close>. The request is not read.\<close>

definition Reconcile_RS :: "rs_cluster \<Rightarrow> rs_outcome" where
  "Reconcile_RS env =
     (case getRuntimeSecurity env of
        Inl err \<Rightarrow>
          if IsNotFound err then ([StatusOnCRNotFound], empty_Result, None)
          else ([RS_SetDegraded env ''Error querying for RuntimeSecurity'' (Error err)],
                empty_Result, Some err)
      | Inr rs \<Rightarrow>
          after [StatusOnCRFound]
            (case GetInstallation env of
               Inl err \<Rightarrow>
                 if IsNotFound err
                 then ([RS_SetDegraded env ''Installation not found'' (Error err)],
                       empty_Result, None)
                 else ([RS_SetDegraded env ''Error querying installation'' (Error err)],
                       empty_Result, Some err)
             | Inr (variant, installation) \<Rightarrow>
                 if variant \<noteq> TigeraSecureEnterprise
                 then ([RS_SetDegraded env
                          (''Waiting for network to be '' @ TigeraSecureEnterprise) []],
                       empty_Result, None)
                 else RS_prerequisites env rs variant installation))"

section \<open>The ImageAssurance reconciler\<close>

record ImageAssurance_CR =
  IA_Meta :: ObjectMeta
  APIProxyURL :: string
  IA_Status_State :: string

record Authentication_CR =
  Authentication_Status_State :: string

datatype KeyValidator = KeyValidator string

text \<open>The \<open>Config\<close> of package imageassurance and of package certificatemanagement.\<close>

record IA_Config =
  IA_PullSecrets :: "Secret list"
  IA_Installation :: "InstallationSpec option"
  IA_OsType :: string
  IA_ConfigurationConfigMap :: "ConfigMap option"
  IA_TLSSecret :: "Secret option"
  KeyValidatorConfig :: "KeyValidator option"
  TrustedCertBundle :: "TrustedBundle option"
  ScannerAPIAccessToken :: "string option"
  IA_APIProxyURL :: string

record CertificateManagement_Config =
  CertificateManagement_Namespace :: string
  ServiceAccounts :: "string list"
  CertificateManagement_TrustedBundle :: "TrustedBundle option"

datatype ia_component =
    Passthrough "Secret option list"
  | ImageAssuranceComponent IA_Config
  | CertificateManagementComponent CertificateManagement_Config

record ia_cluster = cluster +
  GetImageAssurance :: "go_error + ImageAssurance_CR"
  GetImageAssuranceConfigurationConfigMap :: "go_error + ConfigMap"
  ValidateCertPair :: "string \<Rightarrow> string \<Rightarrow> string \<Rightarrow> string \<Rightarrow> go_error + Secret option"
  GetServiceDNSNames :: "string \<Rightarrow> string \<Rightarrow> string \<Rightarrow> string list"
  EnsureCertificateSecret :: "string \<Rightarrow> Secret option \<Rightarrow> string \<Rightarrow> string \<Rightarrow> int \<Rightarrow> string list
    \<Rightarrow> go_error + Secret option"
  DefaultCertificateDuration :: int
  client_Get_ServiceAccount :: "string \<Rightarrow> string \<Rightarrow> go_error + ServiceAccount"
  client_Get_Secret :: "string \<Rightarrow> string \<Rightarrow> go_error + Secret"
  GetImageSet :: "string \<Rightarrow> go_error + ImageSet option"
  ValidateImageSet :: "ImageSet option \<Rightarrow> go_error option"
  GetAuthentication :: "Authentication_CR option \<times> go_error option"
  GetKeyValidatorConfig :: "Authentication_CR option \<Rightarrow> string \<Rightarrow> go_error + KeyValidator option"
  ia_ApplyImageSet :: "string \<Rightarrow> ia_component list \<Rightarrow> go_error option \<times> ia_component list"
  ia_CreateOrUpdateOrDelete :: "ImageAssurance_CR \<Rightarrow> ia_component \<Rightarrow> go_error option"
  ia_Status_Update :: "ImageAssurance_CR \<Rightarrow> go_error option"
  rcimageassurance :: rcimageassurance_names
  APICertSecretName :: string
  ManagerInternalTLSSecretName :: string
  ScannerAPIAccessServiceAccountName :: string
  ResourceNameImageAssuranceAPI :: string
  NameSpaceImageAssurance :: string

type_synonym ia_outcome = "(ImageAssurance_CR, ia_component) outcome"

definition TLSPrivateKeyKey :: string where
  "TLSPrivateKeyKey = ''tls.key''"

definition TLSCertKey :: string where
  "TLSCertKey = ''tls.crt''"

text \<open>
  \<open>getAPICertSecret\<close>. The error of \<open>EnsureCertificateSecret\<close> is wrapped by
  \<open>fmt.Errorf\<close> with the operands \<open>render.ManagerInternalTLSSecretName\<close> and the error.
\<close>

definition getAPICertSecret :: "ia_cluster \<Rightarrow> go_error + Secret option" where
  "getAPICertSecret env =
     (case ValidateCertPair env (OperatorNamespace env) (APICertSecretName env)
             TLSPrivateKeyKey TLSCertKey of
        Inl err \<Rightarrow> Inl err
      | Inr secret \<Rightarrow>
          (let svcDNSNames = GetServiceDNSNames env (ResourceNameImageAssuranceAPI env)
                               (NameSpaceImageAssurance env) (clusterDomain env)
           in case EnsureCertificateSecret env (APICertSecretName env) secret
                     TLSPrivateKeyKey TLSCertKey (DefaultCertificateDuration env) svcDNSNames of
                Inl err \<Rightarrow>
                  Inl (fmt_Errorf env
                         ''error ensuring TLS certificate exists and has valid DNS names %q: %s''
                         [ManagerInternalTLSSecretName env, Error err])
              | Inr secret \<Rightarrow> Inr secret))"

text \<open>
  \<open>getAPIAccessToken\<close>: the token of the first secret of the service account; a nil
  byte slice is \<open>None\<close>. Any error of either read is returned as it is.
\<close>

definition getAPIAccessToken :: "ia_cluster \<Rightarrow> string \<Rightarrow> go_error + string option" where
  "getAPIAccessToken env serviceAccountName =
     (case client_Get_ServiceAccount env serviceAccountName (OperatorNamespace env) of
        Inl err \<Rightarrow> Inl err
      | Inr sa \<Rightarrow>
          (case Secrets sa of
             [] \<Rightarrow> Inr None
           | first # others \<Rightarrow>
               (case client_Get_Secret env first (OperatorNamespace env) of
                  Inl err \<Rightarrow> Inl err
                | Inr saSecret \<Rightarrow> Inr (Secret_Data saSecret ''token''))))"

text \<open>The end of \<open>Reconcile\<close>, from \<open>r.status.ClearDegraded()\<close> on.\<close>

definition IA_finish :: "ia_cluster \<Rightarrow> ImageAssurance_CR \<Rightarrow> ia_outcome" where
  "IA_finish env ia =
     (if \<not> IsAvailable env
      then ([StatusClearDegraded], \<lparr>Requeue = False, RequeueAfter = 30 * Second\<rparr>, None)
      else (let ia = ia\<lparr>IA_Status_State := TigeraStatusReady\<rparr>
            in case ia_Status_Update env ia of
                 Some err \<Rightarrow> ([StatusClearDegraded, UpdateCRStatus ia], empty_Result, Some err)
               | None \<Rightarrow> ([StatusClearDegraded, UpdateCRStatus ia], empty_Result, None)))"

text \<open>The loop over the components: it stops at the first one that fails to apply.\<close>

fun IA_applyAll :: "ia_cluster \<Rightarrow> ImageAssurance_CR \<Rightarrow> ia_component list \<Rightarrow> ia_outcome" where
  "IA_applyAll env ia [] = IA_finish env ia"
| "IA_applyAll env ia (component # components) =
     (case ia_CreateOrUpdateOrDelete env ia component of
        Some err \<Rightarrow>
          ([ApplyComponent component,
            StatusSetDegraded ''Error creating / updating resource'' (Error err)],
           empty_Result, Some err)
      | None \<Rightarrow> after [ApplyComponent component] (IA_applyAll env ia components))"

text \<open>
  From the readiness test of the Authentication resource to the apply. \<open>ApplyImageSet\<close>
  resolves the images inside the components it is given, which are then applied.
\<close>

definition IA_authenticated ::
  "ia_cluster \<Rightarrow> ImageAssurance_CR \<Rightarrow> string \<Rightarrow> InstallationSpec \<Rightarrow> Secret list \<Rightarrow> ConfigMap
     \<Rightarrow> TrustedBundle \<Rightarrow> Secret option \<Rightarrow> string \<Rightarrow> Authentication_CR option \<Rightarrow> ia_outcome" where
  "IA_authenticated env ia variant installation pullSecrets configurationConfigMap trustedBundle
       tlsSecret scannerAPIToken authenticationCR =
     (if authenticationCR \<noteq> None \<and>
         (case authenticationCR of
            Some a \<Rightarrow> Authentication_Status_State a \<noteq> TigeraStatusReady
          | None \<Rightarrow> False)
      then ([StatusSetDegraded ''Authentication is not ready''
               (''authenticationCR status: '' @
                  (case authenticationCR of
                     Some a \<Rightarrow> Authentication_Status_State a
                   | None \<Rightarrow> []))],
            empty_Result, None)
      else
     (case GetKeyValidatorConfig env authenticationCR (clusterDomain env) of
        Inl err \<Rightarrow>
          ([StatusSetDegraded ''Failed to process the authentication CR.'' (Error err)],
           empty_Result, Some err)
      | Inr kvc \<Rightarrow>
          (let config = \<lparr>IA_PullSecrets = pullSecrets,
                         IA_Installation = Some installation,
                         IA_OsType = OSTypeLinux,
                         IA_ConfigurationConfigMap = Some configurationConfigMap,
                         IA_TLSSecret = tlsSecret,
                         KeyValidatorConfig = kvc,
                         TrustedCertBundle = Some trustedBundle,
                         ScannerAPIAccessToken = Some scannerAPIToken,
                         IA_APIProxyURL = APIProxyURL ia\<rparr>;
               components =
                 [Passthrough [tlsSecret],
                  ImageAssuranceComponent config,
                  CertificateManagementComponent
                    \<lparr>CertificateManagement_Namespace = NameSpaceImageAssurance env,
                     ServiceAccounts = [ResourceNameImageAssuranceAPI env],
                     CertificateManagement_TrustedBundle = Some trustedBundle\<rparr>]
           in case ia_ApplyImageSet env variant components of
                (Some err, components) \<Rightarrow>
                  ([StatusSetDegraded ''Error with images from ImageSet'' (Error err)],
                   empty_Result, Some err)
              | (None, components) \<Rightarrow> IA_applyAll env ia components)))"

text \<open>The image set and the read of the Authentication resource.\<close>

definition IA_render_apply ::
  "ia_cluster \<Rightarrow> ImageAssurance_CR \<Rightarrow> string \<Rightarrow> InstallationSpec \<Rightarrow> Secret list \<Rightarrow> ConfigMap
     \<Rightarrow> TrustedBundle \<Rightarrow> Secret option \<Rightarrow> string \<Rightarrow> ia_outcome" where
  "IA_render_apply env ia variant installation pullSecrets configurationConfigMap trustedBundle
       tlsSecret scannerAPIToken =
     (case GetImageSet env variant of
        Inl err \<Rightarrow>
          ([StatusSetDegraded ''Error retrieving image set'' (Error err)], empty_Result, Some err)
      | Inr imageSet \<Rightarrow>
     (case ValidateImageSet env imageSet of
        Some err \<Rightarrow>
          ([StatusSetDegraded ''Error validating image set'' (Error err)], empty_Result, Some err)
      | None \<Rightarrow>
     (case GetAuthentication env of
        (authenticationCR, Some err) \<Rightarrow>
          if \<not> IsNotFound err
          then ([StatusSetDegraded ''Error querying Authentication'' (Error err)],
                empty_Result, Some err)
          else IA_authenticated env ia variant installation pullSecrets configurationConfigMap
                 trustedBundle tlsSecret scannerAPIToken authenticationCR
      | (authenticationCR, None) \<Rightarrow>
          IA_authenticated env ia variant installation pullSecrets configurationConfigMap
            trustedBundle tlsSecret scannerAPIToken authenticationCR)))"

text \<open>The certificate manager, the two certificates and the scanner's API token.\<close>

definition IA_certificates ::
  "ia_cluster \<Rightarrow> ImageAssurance_CR \<Rightarrow> string \<Rightarrow> InstallationSpec \<Rightarrow> Secret list \<Rightarrow> ConfigMap
     \<Rightarrow> ia_outcome" where
  "IA_certificates env ia variant installation pullSecrets configurationConfigMap =
     (case certificatemanager_Create env installation (clusterDomain env) of
        Inl err \<Rightarrow>
          ([StatusSetDegraded ''Unable to create the Tigera CA'' (Error err)],
           empty_Result, Some err)
      | Inr certificateManager \<Rightarrow>
     (case GetCertificate certificateManager (ManagerInternalTLSSecretName env)
             (OperatorNamespace env) of
        Inl err \<Rightarrow>
          ([StatusSetDegraded ''Error retrieving internal manager tls secret'' (Error err)],
           empty_Result, Some err)
      | Inr internalMgrSecret \<Rightarrow>
          (let trustedBundle = CreateTrustedBundle certificateManager [internalMgrSecret]
           in if internalMgrSecret = None
              then ([StatusSetDegraded
                       ''Waiting for internal manager tls certificate to be available'' []],
                    empty_Result, None)
              else
     (case getAPICertSecret env of
        Inl err \<Rightarrow>
          ([StatusSetDegraded ''Error in ensuring TLS certificate for image-assurance api''
              (Error err)],
           empty_Result, Some err)
      | Inr tlsSecret \<Rightarrow>
     (case getAPIAccessToken env (ScannerAPIAccessServiceAccountName env) of
        Inl err \<Rightarrow>
          ([StatusSetDegraded ''Error in retrieving scanner API access token'' (Error err)],
           empty_Result, Some err)
      | Inr None \<Rightarrow>
          ([StatusSetDegraded
              ''Waiting for scanner api access service account secret to be available'' []],
           empty_Result, None)
      | Inr (Some scannerAPIToken) \<Rightarrow>
          IA_render_apply env ia variant installation pullSecrets configurationConfigMap
            trustedBundle tlsSecret scannerAPIToken)))))"

text \<open>
  \<open>ReconcileImageAssurance.Reconcile\<close>. The request is not read. The error made by
  \<open>fmt.Errorf("APIProxyURL cannot be nil or empty")\<close> has that text, the format holding no
  verb, and is no not-found error.
\<close>

definition Reconcile_IA :: "ia_cluster \<Rightarrow> ia_outcome" where
  "Reconcile_IA env =
     (case GetImageAssurance env of
        Inl err \<Rightarrow>
          if IsNotFound err then ([StatusOnCRNotFound], empty_Result, None)
          else ([StatusSetDegraded ''Error querying for ImageAssurance'' (Error err)],
                empty_Result, Some err)
      | Inr ia \<Rightarrow>
          after [StatusOnCRFound]
     (case GetInstallation env of
        Inl err \<Rightarrow>
          if IsNotFound err
          then ([StatusSetDegraded ''Installation not found'' (Error err)], empty_Result, None)
          else ([StatusSetDegraded ''Error querying installation'' (Error err)],
                empty_Result, Some err)
      | Inr (variant, installation) \<Rightarrow>
     (case GetNetworkingPullSecrets env installation of
        Inl err \<Rightarrow>
          ([StatusSetDegraded ''Error retrieving image pull secrets'' (Error err)],
           empty_Result, Some err)
      | Inr pullSecrets \<Rightarrow>
     (case GetImageAssuranceConfigurationConfigMap env of
        Inl err \<Rightarrow>
          if IsNotFound err
          then ([StatusSetDegraded
                   (ConfigurationConfigMapName (rcimageassurance env) @ '' ConfigMap not found'')
                   (Error err)],
                empty_Result, None)
          else ([StatusSetDegraded ''Error retrieving image assurance configuration''
                   (Error err)],
                empty_Result, Some err)
      | Inr configurationConfigMap \<Rightarrow>
          if APIProxyURL ia = []
          then (let err = \<lparr>IsNotFound = False, Error = ''APIProxyURL cannot be nil or empty''\<rparr>
                in ([StatusSetDegraded ''APIProxyURL cannot be nil or empty'' (Error err)],
                    empty_Result, Some err))
          else IA_certificates env ia variant installation pullSecrets
                 configurationConfigMap))))"

section \<open>Example inputs\<close>

text \<open>
  Concrete values of the parameters and inputs above, on which the definitions are evaluated.
\<close>

definition sample_setters :: custom_setters where
  "sample_setters =
     \<lparr>setCustomVolumeMounts = (\<lambda>defaults extra. defaults @ extra),
      setCustomVolumes = (\<lambda>defaults extra. defaults @ extra),
      setCustomTolerations = (\<lambda>defaults extra. defaults @ extra)\<rparr>"

definition sample_core :: "string \<Rightarrow> Core" where
  "sample_core variant =
     \<lparr>Core_Spec =
        \<lparr>Core_Version = ''v2.4.0'', Core_Variant = variant, Core_Registry = ''quay.io/'',
         ImagePullSecretsRef = [],
         Components_APIServer =
           \<lparr>ImageOverride = [], ExtraVolumeMounts = [], ExtraVolumes = [],
            APIServer_Tolerations = []\<rparr>\<rparr>\<rparr>"

definition sample_names :: rcimageassurance_names where
  "sample_names =
     \<lparr>ConfigurationConfigMapName = ''tigera-image-assurance-config'',
      ConfigurationConfigMapOrgIDKey = ''organizationID'',
      ScannerCLITokenSecretName = ''tigera-image-assurance-scanner-cli-token'',
      ScannerCLIDownloadURL = ''https://installer.calicocloud.io/tigera-scanner''\<rparr>"

definition sample_cloud_resources :: ManagerCloudResources where
  "sample_cloud_resources =
     \<lparr>TenantID = ''tenant1'', CloudRBACResources = None, ImageAssuranceResources = None\<rparr>"

definition sample_extra_env :: "string \<rightharpoonup> string" where
  "sample_extra_env =
     [''portalAPIURL'' \<mapsto> ''https://portal'', ''auth0OrgID'' \<mapsto> ''org-1'', ''ZED'' \<mapsto> ''z'']"

definition sample_bundle :: TrustedBundle where
  "sample_bundle =
     \<lparr>TrustedBundle_ConfigMap = (\<lambda>ns.
        \<lparr>ConfigMap_Type = \<lparr>Kind = ''ConfigMap'', APIVersion = ''v1''\<rparr>,
         ConfigMap_Meta = meta_named ''tigera-ca-bundle'' ns,
         Data = [''tigera-ca-bundle.crt'' \<mapsto> ''PEM'']\<rparr>),
      HashAnnotations = [''hash.operator.tigera.io/tigera-ca-private'' \<mapsto> ''0a1b''],
      TrustedBundle_Volume =
        \<lparr>Volume_Name = ''tigera-ca-bundle'',
         Volume_Source = ConfigMapVolume ''tigera-ca-bundle'' []\<rparr>,
      TrustedBundle_VolumeMounts = (\<lambda>os.
        [\<lparr>VolumeMount_Name = ''tigera-ca-bundle'', MountPath = ''/etc/pki/tls/certs'',
          ReadOnly = True\<rparr>])\<rparr>"

definition sample_helpers :: render_helpers where
  "sample_helpers =
     \<lparr>CreateNamespace = (\<lambda>name provider pss.
        \<lparr>Namespace_Type = \<lparr>Kind = ''Namespace'', APIVersion = ''v1''\<rparr>,
         Namespace_Meta = \<lparr>Name = name, Namespace = [], Labels = [''name'' \<mapsto> name],
                           Annotations = Map.empty\<rparr>\<rparr>),
      PSSPrivileged = ''privileged'',
      CopyToNamespace = (\<lambda>ns secrets.
        map (\<lambda>s. s\<lparr>Secret_Meta := (Secret_Meta s)\<lparr>Namespace := ns\<rparr>\<rparr>) secrets),
      ToRuntimeObjects = map SecretObj,
      GetReferenceList = map (\<lambda>s. Name (Secret_Meta s)),
      DecorateAnnotations = (\<lambda>template cluster secrets. Some template),
      ContainerDecorate = (\<lambda>container cluster secret domain os. container),
      GetReference = (\<lambda>component reg path prefix is. Inr (reg @ path @ prefix @ component)),
      ComponentSasha = ''tigera/sasha'',
      ComponentThreatId = ''tigera/threat-id'',
      sashaCronJob = (\<lambda>config.
        \<lparr>CronJob_Type = \<lparr>Kind = ''CronJob'', APIVersion = ''batch/v1''\<rparr>,
         CronJob_Meta = meta_named ''tigera-sasha'' NameSpaceRuntimeSecurity\<rparr>),
      oldSashaServiceAccount = (\<lambda>config.
        \<lparr>ServiceAccount_Type = \<lparr>Kind = ''ServiceAccount'', APIVersion = ''v1''\<rparr>,
         ServiceAccount_Meta = meta_named ''tigera-sasha'' NameSpaceRuntimeSecurity,
         Secrets = []\<rparr>)\<rparr>"

definition sample_secret :: "string \<Rightarrow> Secret" where
  "sample_secret n =
     \<lparr>Secret_Type = \<lparr>Kind = ''Secret'', APIVersion = ''v1''\<rparr>,
      Secret_Meta = meta_named n ''tigera-operator'',
      Secret_Data = [''key'' \<mapsto> ''value'']\<rparr>"

definition sample_installation :: InstallationSpec where
  "sample_installation =
     \<lparr>Registry = ''quay.io/'', ImagePath = [], ImagePrefix = [],
      KubernetesProvider = ''EKS'', ControlPlaneNodeSelector = Map.empty,
      ControlPlaneTolerations = []\<rparr>"

definition sample_config :: Config where
  "sample_config =
     \<lparr>PullSecrets = [sample_secret ''tigera-pull-secret''],
      Installation = Some sample_installation,
      OsType = OSTypeLinux,
      SashaESSecrets = [sample_secret ElasticsearchSashaJobUserSecretName],
      ESClusterConfig = Some \<lparr>ClusterName = ''cluster''\<rparr>,
      ESSecrets = [],
      ClusterDomain = ''cluster.local'',
      TrustedBundle = Some sample_bundle,
      RuntimeSecuritySpec =
        Some \<lparr>Sasha_Resources = Some no_Resources, ThreatId_Resources = Some no_Resources\<rparr>,
      sashaImage = [],
      threatIdImage = []\<rparr>"

definition sample_certificate_manager :: CertificateManager where
  "sample_certificate_manager =
     \<lparr>GetCertificate = (\<lambda>name ns. Inr (Some (Certificate name))),
      CreateTrustedBundle = (\<lambda>certificates. sample_bundle)\<rparr>"

definition sample_not_found :: go_error where
  "sample_not_found = \<lparr>IsNotFound = True, Error = ''the requested resource was not found''\<rparr>"

definition sample_timeout :: go_error where
  "sample_timeout = \<lparr>IsNotFound = False, Error = ''the server was unable to return a response in time''\<rparr>"

definition sample_rs :: RuntimeSecurity_CR where
  "sample_rs =
     \<lparr>RS_Meta = meta_named ''tigera-secure'' [],
      RS_Spec = \<lparr>Sasha_Resources = None, ThreatId_Resources = None\<rparr>,
      RS_Status_State = []\<rparr>"

definition sample_rs_cluster :: "string \<Rightarrow> bool \<Rightarrow> rs_cluster" where
  "sample_rs_cluster variant available =
     \<lparr>GetInstallation = Inr (variant, sample_installation),
      GetNetworkingPullSecrets = (\<lambda>installation. Inr [sample_secret ''tigera-pull-secret'']),
      certificatemanager_Create = (\<lambda>installation domain. Inr sample_certificate_manager),
      IsAvailable = available,
      OperatorNamespace = ''tigera-operator'',
      clusterDomain = ''cluster.local'',
      fmt_Errorf = (\<lambda>format operands.
        \<lparr>IsNotFound = False, Error = strings_Join (format # operands) '' ''\<rparr>),
      client_Get_RuntimeSecurity = Inr sample_rs,
      GetElasticsearchClusterConfig = Inr \<lparr>ClusterName = ''cluster''\<rparr>,
      ElasticsearchSecrets = (\<lambda>names. Inr (map sample_secret names)),
      PublicCertSecret = ''tigera-secure-es-gateway-http-certs-public'',
      Unknown = ''Unknown'',
      rs_ApplyImageSet = (\<lambda>variant config.
        (None, config\<lparr>sashaImage := ''quay.io/tigera/sasha'',
                        threatIdImage := ''quay.io/tigera/threat-id''\<rparr>)),
      rs_CreateOrUpdateOrDelete = (\<lambda>rs config. None),
      rs_Status_Update = (\<lambda>rs. None)\<rparr>"

definition sample_ia :: "string \<Rightarrow> ImageAssurance_CR" where
  "sample_ia url =
     \<lparr>IA_Meta = meta_named ''tigera-secure'' [],
      APIProxyURL = url,
      IA_Status_State = []\<rparr>"

definition sample_service_account :: ServiceAccount where
  "sample_service_account =
     \<lparr>ServiceAccount_Type = \<lparr>Kind = ''ServiceAccount'', APIVersion = ''v1''\<rparr>,
      ServiceAccount_Meta = meta_named ''tigera-image-assurance-scanner-api-access''
        ''tigera-operator'',
      Secrets = [''tigera-image-assurance-scanner-api-access-token'']\<rparr>"

definition sample_token_secret :: Secret where
  "sample_token_secret =
     \<lparr>Secret_Type = \<lparr>Kind = ''Secret'', APIVersion = ''v1''\<rparr>,
      Secret_Meta = meta_named ''tigera-image-assurance-scanner-api-access-token''
        ''tigera-operator'',
      Secret_Data = [''token'' \<mapsto> ''eyJhbGciOi'']\<rparr>"

definition sample_configuration_configmap :: ConfigMap where
  "sample_configuration_configmap =
     \<lparr>ConfigMap_Type = \<lparr>Kind = ''ConfigMap'', APIVersion = ''v1''\<rparr>,
      ConfigMap_Meta = meta_named ''tigera-image-assurance-config'' ''tigera-operator'',
      Data = [''organizationID'' \<mapsto> ''tenant123'']\<rparr>"

definition sample_ia_cluster :: "string \<Rightarrow> bool \<Rightarrow> string \<Rightarrow> ia_cluster" where
  "sample_ia_cluster variant available url =
     \<lparr>GetInstallation = Inr (variant, sample_installation),
      GetNetworkingPullSecrets = (\<lambda>installation. Inr [sample_secret ''tigera-pull-secret'']),
      certificatemanager_Create = (\<lambda>installation domain. Inr sample_certificate_manager),
      IsAvailable = available,
      OperatorNamespace = ''tigera-operator'',
      clusterDomain = ''cluster.local'',
      fmt_Errorf = (\<lambda>format operands.
        \<lparr>IsNotFound = False, Error = strings_Join (format # operands) '' ''\<rparr>),
      GetImageAssurance = Inr (sample_ia url),
      GetImageAssuranceConfigurationConfigMap = Inr sample_configuration_configmap,
      ValidateCertPair = (\<lambda>ns name keyName certName. Inr None),
      GetServiceDNSNames = (\<lambda>service ns domain. [service @ ''.'' @ ns @ ''.svc.'' @ domain]),
      EnsureCertificateSecret = (\<lambda>name secret keyName certName duration dnsNames.
        Inr (Some (sample_secret name))),
      DefaultCertificateDuration = 8760,
      client_Get_ServiceAccount = (\<lambda>name ns. Inr sample_service_account),
      client_Get_Secret = (\<lambda>name ns. Inr sample_token_secret),
      GetImageSet = (\<lambda>variant. Inr None),
      ValidateImageSet = (\<lambda>imageSet. None),
      GetAuthentication = (None, Some sample_not_found),
      GetKeyValidatorConfig = (\<lambda>authentication domain. Inr None),
      ia_ApplyImageSet = (\<lambda>variant components. (None, components)),
      ia_CreateOrUpdateOrDelete = (\<lambda>ia component. None),
      ia_Status_Update = (\<lambda>ia. None),
      rcimageassurance = sample_names,
      APICertSecretName = ''tigera-image-assurance-api-cert'',
      ManagerInternalTLSSecretName = ''internal-manager-tls'',
      ScannerAPIAccessServiceAccountName = ''tigera-image-assurance-scanner-api-access'',
      ResourceNameImageAssuranceAPI = ''tigera-image-assurance-api'',
      NameSpaceImageAssurance = ''tigera-image-assurance''\<rparr>"

chapter \<open>Properties\<close>

section \<open>Package cloudconfig\<close>

lemma ParseBool_FormatBool: "ParseBool (FormatBool b) = Some b"
  by (simp add: ParseBool_def FormatBool_def)

lemma FormatBool_nonempty: "FormatBool b \<noteq> []"
  by (simp add: FormatBool_def)

text \<open>
  C10. Reading back the config map a \<open>CloudConfig\<close> writes gives the same \<open>CloudConfig\<close>
  (all five fields, \<open>enableMTLS\<close> included) and no error, provided the four string fields
  are non-empty.
\<close>

theorem cloudconfig_roundtrip:
  assumes "tenantId c \<noteq> []" and "tenantName c \<noteq> []"
    and "externalESDomain c \<noteq> []" and "externalKibanaDomain c \<noteq> []"
  shows "NewCloudConfigFromConfigMap (CloudConfig_ConfigMap opns c) = Inr c"
  using assms
  by (simp add: NewCloudConfigFromConfigMap_def CloudConfig_ConfigMap_def go_index_def
      NewCloudConfig_def ParseBool_FormatBool FormatBool_nonempty)

theorem cloudconfig_roundtrip_witness:
  "tenantId \<lparr>tenantId = ''abc123'', tenantName = ''tenant1'',
         externalESDomain = ''externalES.com'', externalKibanaDomain = ''externalKibana.com'',
         enableMTLS = True\<rparr> \<noteq> [] \<and>
   NewCloudConfigFromConfigMap
     (CloudConfig_ConfigMap ''tigera-operator''
        \<lparr>tenantId = ''abc123'', tenantName = ''tenant1'', externalESDomain = ''externalES.com'',
         externalKibanaDomain = ''externalKibana.com'', enableMTLS = True\<rparr>)
   = Inr \<lparr>tenantId = ''abc123'', tenantName = ''tenant1'', externalESDomain = ''externalES.com'',
          externalKibanaDomain = ''externalKibana.com'', enableMTLS = True\<rparr>"
  using cloudconfig_roundtrip [of "\<lparr>tenantId = ''abc123'', tenantName = ''tenant1'',
         externalESDomain = ''externalES.com'', externalKibanaDomain = ''externalKibana.com'',
         enableMTLS = True\<rparr>" "''tigera-operator''"]
  by simp

section \<open>The API server renderer\<close>

lemma APIServer_enterprise:
  "Core_Variant (Core_Spec cr) = TigeraSecureEnterprise \<Longrightarrow>
     length (APIServer h cr) = 9 \<and>
     hd (APIServer h cr) = DeploymentObj (apiServer h cr) \<and>
     map kind_and_name (APIServer h cr) =
       [(''Deployment'', ''tigera-apiserver''),
        (''ConfigMap'', ''tigera-audit-policy''),
        (''ServiceAccount'', ''tigera-apiserver''),
        (''APIService'', ''v3.projectcalico.org''),
        (''Service'', ''tigera-api''),
        (''ClusterRole'', ''tigera-tiered-policy-passthrough''),
        (''ClusterRoleBinding'', ''tigera-tiered-policy-passthrough''),
        (''ClusterRoleBinding'', ''tigera-apiserver-delegate-auth''),
        (''RoleBinding'', ''tigera-auth-reader'')]"
  by (simp add: APIServer_def kind_and_name_def apiServer_def auditPolicyConfigMap_def
      apiServerServiceAccount_def apiService_def apiServerService_def
      tieredPolicyPassthruClusterRole_def tieredPolicyPassthruClusterRolebinding_def
      delegateAuthClusterRoleBinding_def authReaderRoleBinding_def meta_named_def)

text \<open>
  C9. For a \<open>Core\<close> resource whose variant is not \<open>TigeraSecureEnterprise\<close> the
  renderer \<open>APIServer\<close> returns nil, the empty list. For the enterprise variant it returns
  exactly nine objects: the \<open>tigera-apiserver\<close> Deployment first, then the audit-policy
  ConfigMap, the service account, the \<open>v3.projectcalico.org\<close> APIService, the
  \<open>tigera-api\<close> Service, and the four RBAC objects.
\<close>

theorem APIServer_objects:
  "(Core_Variant (Core_Spec cr) \<noteq> TigeraSecureEnterprise \<longrightarrow> APIServer h cr = []) \<and>
   (Core_Variant (Core_Spec cr) = TigeraSecureEnterprise \<longrightarrow>
     length (APIServer h cr) = 9 \<and>
     hd (APIServer h cr) = DeploymentObj (apiServer h cr) \<and>
     map kind_and_name (APIServer h cr) =
       [(''Deployment'', ''tigera-apiserver''),
        (''ConfigMap'', ''tigera-audit-policy''),
        (''ServiceAccount'', ''tigera-apiserver''),
        (''APIService'', ''v3.projectcalico.org''),
        (''Service'', ''tigera-api''),
        (''ClusterRole'', ''tigera-tiered-policy-passthrough''),
        (''ClusterRoleBinding'', ''tigera-tiered-policy-passthrough''),
        (''ClusterRoleBinding'', ''tigera-apiserver-delegate-auth''),
        (''RoleBinding'', ''tigera-auth-reader'')])"
proof (intro conjI impI)
  assume "Core_Variant (Core_Spec cr) \<noteq> TigeraSecureEnterprise"
  then show "APIServer h cr = []" by (simp add: APIServer_def)
next
  assume e: "Core_Variant (Core_Spec cr) = TigeraSecureEnterprise"
  from APIServer_enterprise [OF e] show "length (APIServer h cr) = 9" by simp
  from APIServer_enterprise [OF e] show "hd (APIServer h cr) = DeploymentObj (apiServer h cr)" by simp
  from APIServer_enterprise [OF e] show "map kind_and_name (APIServer h cr) =
       [(''Deployment'', ''tigera-apiserver''),
        (''ConfigMap'', ''tigera-audit-policy''),
        (''ServiceAccount'', ''tigera-apiserver''),
        (''APIService'', ''v3.projectcalico.org''),
        (''Service'', ''tigera-api''),
        (''ClusterRole'', ''tigera-tiered-policy-passthrough''),
        (''ClusterRoleBinding'', ''tigera-tiered-policy-passthrough''),
        (''ClusterRoleBinding'', ''tigera-apiserver-delegate-auth''),
        (''RoleBinding'', ''tigera-auth-reader'')]" by simp
qed

theorem APIServer_objects_witness:
  "Core_Variant (Core_Spec (sample_core ''Calico'')) \<noteq> TigeraSecureEnterprise \<and>
   APIServer sample_setters (sample_core ''Calico'') = [] \<and>
   Core_Variant (Core_Spec (sample_core ''TigeraSecureEnterprise'')) = TigeraSecureEnterprise \<and>
   length (APIServer sample_setters (sample_core ''TigeraSecureEnterprise'')) = 9 \<and>
   Name (object_meta (hd (APIServer sample_setters (sample_core ''TigeraSecureEnterprise''))))
     = ''tigera-apiserver''"
  using APIServer_objects [of "sample_core ''Calico''" sample_setters]
    APIServer_objects [of "sample_core ''TigeraSecureEnterprise''" sample_setters]
  by (simp add: sample_core_def TigeraSecureEnterprise_def apiServer_def)

section \<open>Cloud environment variables of the manager\<close>

lemma appendExtraEnv_concat:
  "appendExtraEnv m keys envs = envs @ concat (map (extraEnvFor m) keys)"
  by (induction keys arbitrary: envs) simp_all

lemma sort_range_order:
  "distinct ks \<Longrightarrow> set ks = dom m \<Longrightarrow> sort ks = sorted_list_of_set (dom m)"
  by (metis sorted_list_of_set_sort_remdups distinct_remdups_id)

lemma setManagerCloudEnvs_split:
  "setManagerCloudEnvs names cr m ks envs =
     setManagerCloudEnvs names cr Map.empty [] envs @ concat (map (extraEnvFor m) (sort ks))"
  by (simp add: setManagerCloudEnvs_def Let_def appendExtraEnv_concat)

text \<open>
  C7. Whatever \<open>ManagerExtraEnv\<close> holds, and in whatever order the \<open>range\<close> over it
  delivers the keys (\<open>ks\<close> and \<open>ks'\<close> are two such orders), \<open>setManagerCloudEnvs\<close>
  returns the same list; what it appends from the map follows the ascending order of the
  keys, each key contributing there what \<open>extraEnvFor\<close> gives, which is the legacy
  variable names for \<open>portalAPIURL\<close> and \<open>auth0OrgID\<close>.
\<close>

theorem setManagerCloudEnvs_sorted:
  assumes "distinct ks" and "set ks = dom m" and "distinct ks'" and "set ks' = dom m"
  shows "setManagerCloudEnvs names cr m ks envs = setManagerCloudEnvs names cr m ks' envs \<and>
    (\<exists>keys. sorted keys \<and> distinct keys \<and> set keys = dom m \<and>
       setManagerCloudEnvs names cr m ks envs =
         setManagerCloudEnvs names cr Map.empty [] envs @ concat (map (extraEnvFor m) keys))"
proof -
  have fin: "finite (dom m)"
    using assms(2) by (metis List.finite_set)
  have s: "sort ks = sorted_list_of_set (dom m)"
    using assms(1,2) by (rule sort_range_order)
  have s': "sort ks' = sorted_list_of_set (dom m)"
    using assms(3,4) by (rule sort_range_order)
  have same: "setManagerCloudEnvs names cr m ks envs = setManagerCloudEnvs names cr m ks' envs"
    by (simp add: setManagerCloudEnvs_def s s')
  have shape: "setManagerCloudEnvs names cr m ks envs =
      setManagerCloudEnvs names cr Map.empty [] envs
        @ concat (map (extraEnvFor m) (sorted_list_of_set (dom m)))"
    using setManagerCloudEnvs_split [of names cr m ks envs] by (simp add: s)
  have "sorted (sorted_list_of_set (dom m)) \<and> distinct (sorted_list_of_set (dom m))
      \<and> set (sorted_list_of_set (dom m)) = dom m"
    using fin by simp
  with same shape show ?thesis by blast
qed

theorem setManagerCloudEnvs_sorted_witness:
  "distinct [''portalAPIURL'', ''auth0OrgID'', ''ZED''] \<and>
   set [''portalAPIURL'', ''auth0OrgID'', ''ZED''] = dom sample_extra_env \<and>
   distinct [''ZED'', ''portalAPIURL'', ''auth0OrgID''] \<and>
   set [''ZED'', ''portalAPIURL'', ''auth0OrgID''] = dom sample_extra_env \<and>
   setManagerCloudEnvs sample_names sample_cloud_resources sample_extra_env
       [''portalAPIURL'', ''auth0OrgID'', ''ZED''] []
     = setManagerCloudEnvs sample_names sample_cloud_resources sample_extra_env
       [''ZED'', ''portalAPIURL'', ''auth0OrgID''] [] \<and>
   setManagerCloudEnvs sample_names sample_cloud_resources sample_extra_env
       [''portalAPIURL'', ''auth0OrgID'', ''ZED''] []
     = [env_value ''ENABLE_MANAGED_CLUSTERS_ONLY'' ''true'',
        env_value ''LICENSE_EDITION'' ''cloudEdition'',
        env_value ''ZED'' ''z'',
        env_value ''CNX_AUTH0_ORG_ID'' ''org-1'',
        env_value ''CNX_PORTAL_URL'' ''https://portal'',
        env_value ''ENABLE_PORTAL_SUPPORT'' ''true'']"
proof -
  have d1: "distinct [''portalAPIURL'', ''auth0OrgID'', ''ZED'']" by simp
  have d2: "distinct [''ZED'', ''portalAPIURL'', ''auth0OrgID'']" by simp
  have s1: "set [''portalAPIURL'', ''auth0OrgID'', ''ZED''] = dom sample_extra_env"
    by (auto simp: sample_extra_env_def)
  have s2: "set [''ZED'', ''portalAPIURL'', ''auth0OrgID''] = dom sample_extra_env"
    by (auto simp: sample_extra_env_def)
  have v: "setManagerCloudEnvs sample_names sample_cloud_resources sample_extra_env
       [''portalAPIURL'', ''auth0OrgID'', ''ZED''] []
     = [env_value ''ENABLE_MANAGED_CLUSTERS_ONLY'' ''true'',
        env_value ''LICENSE_EDITION'' ''cloudEdition'',
        env_value ''ZED'' ''z'',
        env_value ''CNX_AUTH0_ORG_ID'' ''org-1'',
        env_value ''CNX_PORTAL_URL'' ''https://portal'',
        env_value ''ENABLE_PORTAL_SUPPORT'' ''true'']"
    by (simp add: setManagerCloudEnvs_def sample_cloud_resources_def sample_extra_env_def
        extraEnvFor_def go_index_def)
  from setManagerCloudEnvs_sorted [OF d1 s1 d2 s2, of sample_names sample_cloud_resources "[]"]
  have "setManagerCloudEnvs sample_names sample_cloud_resources sample_extra_env
       [''portalAPIURL'', ''auth0OrgID'', ''ZED''] []
     = setManagerCloudEnvs sample_names sample_cloud_resources sample_extra_env
       [''ZED'', ''portalAPIURL'', ''auth0OrgID''] []" by blast
  with d1 d2 s1 s2 v show ?thesis by blast
qed

section \<open>The runtime-security renderer\<close>

lemma sashaDeployment_returns:
  assumes "Installation config \<noteq> None" and "TrustedBundle config \<noteq> None"
    and "RuntimeSecuritySpec config = Some spec"
    and "Sasha_Resources spec \<noteq> None" and "ThreatId_Resources spec \<noteq> None"
    and "ESClusterConfig config \<noteq> None"
    and "\<forall>template. DecorateAnnotations h template (ESClusterConfig config) (ESSecrets config) \<noteq> None"
  shows "\<exists>d. sashaDeployment h config = Inr d"
proof -
  from assms obtain installation tb sashaResources threatIdResources es where v:
    "Installation config = Some installation" "TrustedBundle config = Some tb"
    "Sasha_Resources spec = Some sashaResources" "ThreatId_Resources spec = Some threatIdResources"
    "ESClusterConfig config = Some es"
    by auto
  have "\<And>template. \<exists>t. DecorateAnnotations h template (Some es) (ESSecrets config) = Some t"
    using assms(7) v(5) by auto
  then show ?thesis
    using v assms(3)
    by (simp add: sashaDeployment_def Let_def split: option.split)
qed

lemma Objects_head:
  assumes "fst (Objects h config) = Inr (objs, toDelete)"
  shows "\<exists>installation rest. Installation config = Some installation \<and>
           objs = NamespaceObj (CreateNamespace h NameSpaceRuntimeSecurity
                    (KubernetesProvider installation) (PSSPrivileged h)) # rest"
  using assms
  by (auto simp: Objects_def Let_def split: option.splits sum.splits if_splits)

lemma Objects_returns:
  assumes "Installation config \<noteq> None" and "TrustedBundle config \<noteq> None"
    and "SashaESSecrets config = [] \<or> (\<exists>d. sashaDeployment h config = Inr d)"
  shows "\<exists>objs toDelete. fst (Objects h config) = Inr (objs, toDelete)"
  using assms
  by (auto simp: Objects_def Let_def split: option.splits sum.splits if_splits)

text \<open>
  C8. Whenever \<open>Objects\<close> returns its lists, the create list starts with the namespace
  object that \<open>CreateNamespace\<close> builds for \<open>tigera-runtime-security\<close>, so that object
  stands before every other object of the list. And \<open>Objects\<close> does return its lists when
  the pointers it follows are set: the installation and the trusted bundle, and, if there
  are Sasha Elasticsearch secrets, the runtime-security spec with both resource
  requirements and the Elasticsearch cluster configuration.
\<close>

theorem Objects_namespace_first:
  "(\<forall>objs toDelete. fst (Objects h config) = Inr (objs, toDelete) \<longrightarrow>
      (\<exists>installation rest. Installation config = Some installation \<and>
         objs = NamespaceObj (CreateNamespace h NameSpaceRuntimeSecurity
                  (KubernetesProvider installation) (PSSPrivileged h)) # rest)) \<and>
   (Installation config \<noteq> None \<and> TrustedBundle config \<noteq> None \<and>
      (SashaESSecrets config = [] \<or>
         (\<exists>spec. RuntimeSecuritySpec config = Some spec \<and>
            Sasha_Resources spec \<noteq> None \<and> ThreatId_Resources spec \<noteq> None) \<and>
         ESClusterConfig config \<noteq> None \<and>
         (\<forall>template. DecorateAnnotations h template (ESClusterConfig config) (ESSecrets config)
            \<noteq> None))
    \<longrightarrow> (\<exists>objs toDelete. fst (Objects h config) = Inr (objs, toDelete)))"
proof (intro conjI allI impI)
  fix objs toDelete
  assume "fst (Objects h config) = Inr (objs, toDelete)"
  then show "\<exists>installation rest. Installation config = Some installation \<and>
         objs = NamespaceObj (CreateNamespace h NameSpaceRuntimeSecurity
                  (KubernetesProvider installation) (PSSPrivileged h)) # rest"
    by (rule Objects_head)
next
  assume a: "Installation config \<noteq> None \<and> TrustedBundle config \<noteq> None \<and>
      (SashaESSecrets config = [] \<or>
         (\<exists>spec. RuntimeSecuritySpec config = Some spec \<and>
            Sasha_Resources spec \<noteq> None \<and> ThreatId_Resources spec \<noteq> None) \<and>
         ESClusterConfig config \<noteq> None \<and>
         (\<forall>template. DecorateAnnotations h template (ESClusterConfig config) (ESSecrets config)
            \<noteq> None))"
  then have "SashaESSecrets config = [] \<or> (\<exists>d. sashaDeployment h config = Inr d)"
    using sashaDeployment_returns [of config _ h] by blast
  with a show "\<exists>objs toDelete. fst (Objects h config) = Inr (objs, toDelete)"
    using Objects_returns by blast
qed

theorem Objects_namespace_first_witness:
  "Installation sample_config \<noteq> None \<and> TrustedBundle sample_config \<noteq> None \<and>
   SashaESSecrets sample_config \<noteq> [] \<and>
   (\<exists>objs toDelete rest. fst (Objects sample_helpers sample_config) = Inr (objs, toDelete) \<and>
      objs = NamespaceObj
               \<lparr>Namespace_Type = \<lparr>Kind = ''Namespace'', APIVersion = ''v1''\<rparr>,
                Namespace_Meta =
                  \<lparr>Name = ''tigera-runtime-security'', Namespace = [],
                   Labels = [''name'' \<mapsto> ''tigera-runtime-security''],
                   Annotations = Map.empty\<rparr>\<rparr> # rest)"
proof -
  have wf: "Installation sample_config \<noteq> None \<and> TrustedBundle sample_config \<noteq> None \<and>
      (SashaESSecrets sample_config = [] \<or>
         (\<exists>spec. RuntimeSecuritySpec sample_config = Some spec \<and>
            Sasha_Resources spec \<noteq> None \<and> ThreatId_Resources spec \<noteq> None) \<and>
         ESClusterConfig sample_config \<noteq> None \<and>
         (\<forall>template. DecorateAnnotations sample_helpers template
            (ESClusterConfig sample_config) (ESSecrets sample_config) \<noteq> None))"
    by (simp add: sample_config_def sample_helpers_def)
  have ne: "SashaESSecrets sample_config \<noteq> []"
    by (simp add: sample_config_def)
  from Objects_namespace_first [of sample_helpers sample_config] wf
  obtain objs toDelete where r: "fst (Objects sample_helpers sample_config) = Inr (objs, toDelete)"
    by blast
  with Objects_namespace_first [of sample_helpers sample_config]
  obtain installation rest where h: "Installation sample_config = Some installation"
    "objs = NamespaceObj (CreateNamespace sample_helpers NameSpaceRuntimeSecurity
              (KubernetesProvider installation) (PSSPrivileged sample_helpers)) # rest"
    by blast
  from h(2) have "objs = NamespaceObj
               \<lparr>Namespace_Type = \<lparr>Kind = ''Namespace'', APIVersion = ''v1''\<rparr>,
                Namespace_Meta =
                  \<lparr>Name = ''tigera-runtime-security'', Namespace = [],
                   Labels = [''name'' \<mapsto> ''tigera-runtime-security''],
                   Annotations = Map.empty\<rparr>\<rparr> # rest"
    by (simp add: sample_helpers_def NameSpaceRuntimeSecurity_def)
  with r wf ne show ?thesis by blast
qed

section \<open>The reconcilers: the custom resource is gone\<close>

text \<open>
  C3. When the read of the custom resource answers not-found, the pass calls
  \<open>OnCRNotFound\<close> on the status tracker and returns the empty result with a nil error.
  That call is the pass's only effect: nothing is applied and no status is written. This
  holds for the ImageAssurance and for the RuntimeSecurity reconciler.
\<close>

theorem reconcile_cr_not_found:
  "(GetImageAssurance ia_env = Inl err \<and> IsNotFound err \<longrightarrow>
      Reconcile_IA ia_env = ([StatusOnCRNotFound], empty_Result, None)) \<and>
   (client_Get_RuntimeSecurity rs_env = Inl err' \<and> IsNotFound err' \<longrightarrow>
      Reconcile_RS rs_env = ([StatusOnCRNotFound], empty_Result, None))"
  by (simp add: Reconcile_IA_def Reconcile_RS_def getRuntimeSecurity_def)

theorem reconcile_cr_not_found_witness:
  "IsNotFound sample_not_found \<and>
   Reconcile_IA ((sample_ia_cluster ''TigeraSecureEnterprise'' True ''https://proxy'')
                   \<lparr>GetImageAssurance := Inl sample_not_found\<rparr>)
     = ([StatusOnCRNotFound], empty_Result, None) \<and>
   Reconcile_RS ((sample_rs_cluster ''TigeraSecureEnterprise'' True)
                   \<lparr>client_Get_RuntimeSecurity := Inl sample_not_found\<rparr>)
     = ([StatusOnCRNotFound], empty_Result, None)"
  using reconcile_cr_not_found
    [of "(sample_ia_cluster ''TigeraSecureEnterprise'' True ''https://proxy'')
           \<lparr>GetImageAssurance := Inl sample_not_found\<rparr>" sample_not_found
        "(sample_rs_cluster ''TigeraSecureEnterprise'' True)
           \<lparr>client_Get_RuntimeSecurity := Inl sample_not_found\<rparr>" sample_not_found]
  by (simp add: sample_not_found_def)

section \<open>The reconcilers: the variant of the Installation\<close>

text \<open>
  C1, as amended. In a pass of the RuntimeSecurity reconciler that finds the custom
  resource and an Installation whose variant is not \<open>TigeraSecureEnterprise\<close>, the status
  is set Degraded with the message "Waiting for network to be TigeraSecureEnterprise" and
  no error, and the pass returns the empty result with a nil error; its effects are
  \<open>OnCRFound\<close> and that call only, so nothing is rendered or applied.
\<close>

theorem reconcile_rs_variant_not_enterprise:
  assumes "client_Get_RuntimeSecurity env = Inr rs"
    and "GetInstallation env = Inr (variant, installation)"
    and "variant \<noteq> TigeraSecureEnterprise"
  shows "Reconcile_RS env =
           ([StatusOnCRFound,
             StatusSetDegradedErr (Unknown env)
               ''Waiting for network to be TigeraSecureEnterprise'' None],
            empty_Result, None)"
  using assms
  by (simp add: Reconcile_RS_def getRuntimeSecurity_def after_def RS_SetDegraded_def
      TigeraSecureEnterprise_def)

theorem reconcile_rs_variant_not_enterprise_witness:
  "''Calico'' \<noteq> TigeraSecureEnterprise \<and>
   Reconcile_RS (sample_rs_cluster ''Calico'' True) =
     ([StatusOnCRFound,
       StatusSetDegradedErr ''Unknown'' ''Waiting for network to be TigeraSecureEnterprise'' None],
      empty_Result, None)"
proof -
  have v: "''Calico'' \<noteq> TigeraSecureEnterprise"
    by (simp add: TigeraSecureEnterprise_def)
  have "Reconcile_RS (sample_rs_cluster ''Calico'' True) =
     ([StatusOnCRFound,
       StatusSetDegradedErr (Unknown (sample_rs_cluster ''Calico'' True))
         ''Waiting for network to be TigeraSecureEnterprise'' None],
      empty_Result, None)"
    by (rule reconcile_rs_variant_not_enterprise [of _ sample_rs "''Calico''" sample_installation])
       (simp_all add: sample_rs_cluster_def v)
  with v show ?thesis by (simp add: sample_rs_cluster_def)
qed

text \<open>
  The ImageAssurance reconciler does not test the variant. On a cluster whose Installation
  declares the variant \<open>Calico\<close> and where every read and every apply succeeds, its pass
  never sets Degraded, applies its three components and ends by writing the state Ready.
\<close>

theorem reconcile_ia_variant_counterexample:
  "GetInstallation (sample_ia_cluster ''Calico'' True ''https://proxy'')
     = Inr (''Calico'', sample_installation) \<and>
   ''Calico'' \<noteq> TigeraSecureEnterprise \<and>
   degraded_messages (fst (Reconcile_IA (sample_ia_cluster ''Calico'' True ''https://proxy''))) = [] \<and>
   length (applied_components
            (fst (Reconcile_IA (sample_ia_cluster ''Calico'' True ''https://proxy'')))) = 3 \<and>
   last (fst (Reconcile_IA (sample_ia_cluster ''Calico'' True ''https://proxy'')))
     = UpdateCRStatus ((sample_ia ''https://proxy'')\<lparr>IA_Status_State := ''Ready''\<rparr>)"
  by (simp add: sample_ia_cluster_def sample_ia_def TigeraSecureEnterprise_def Reconcile_IA_def
      IA_certificates_def IA_render_apply_def IA_authenticated_def IA_finish_def
      getAPICertSecret_def getAPIAccessToken_def sample_certificate_manager_def
      sample_service_account_def sample_token_secret_def sample_not_found_def
      TigeraStatusReady_def after_def Let_def)

section \<open>The ImageAssurance reconciler: an empty APIProxyURL\<close>

text \<open>
  C5. In a pass of the ImageAssurance reconciler that reads the custom resource, the
  Installation, the pull secrets and the configuration config map, and finds the
  resource's \<open>Spec.APIProxyURL\<close> empty, the status is set Degraded with the message
  "APIProxyURL cannot be nil or empty" and the pass returns the empty result with a
  non-nil error.
\<close>

theorem reconcile_ia_empty_proxy_url:
  assumes "GetImageAssurance env = Inr ia"
    and "GetInstallation env = Inr (variant, installation)"
    and "GetNetworkingPullSecrets env installation = Inr pullSecrets"
    and "GetImageAssuranceConfigurationConfigMap env = Inr configurationConfigMap"
    and "APIProxyURL ia = []"
  shows "Reconcile_IA env =
           ([StatusOnCRFound,
             StatusSetDegraded ''APIProxyURL cannot be nil or empty''
               ''APIProxyURL cannot be nil or empty''],
            empty_Result,
            Some \<lparr>IsNotFound = False, Error = ''APIProxyURL cannot be nil or empty''\<rparr>)"
  using assms by (simp add: Reconcile_IA_def after_def)

theorem reconcile_ia_empty_proxy_url_witness:
  "APIProxyURL (sample_ia []) = [] \<and>
   Reconcile_IA (sample_ia_cluster ''TigeraSecureEnterprise'' True []) =
     ([StatusOnCRFound,
       StatusSetDegraded ''APIProxyURL cannot be nil or empty''
         ''APIProxyURL cannot be nil or empty''],
      empty_Result,
      Some \<lparr>IsNotFound = False, Error = ''APIProxyURL cannot be nil or empty''\<rparr>)"
proof -
  have "Reconcile_IA (sample_ia_cluster ''TigeraSecureEnterprise'' True []) =
     ([StatusOnCRFound,
       StatusSetDegraded ''APIProxyURL cannot be nil or empty''
         ''APIProxyURL cannot be nil or empty''],
      empty_Result,
      Some \<lparr>IsNotFound = False, Error = ''APIProxyURL cannot be nil or empty''\<rparr>)"
    by (rule reconcile_ia_empty_proxy_url
          [of _ "sample_ia []" "''TigeraSecureEnterprise''" sample_installation
              "[sample_secret ''tigera-pull-secret'']"])
       (simp_all add: sample_ia_cluster_def sample_ia_def)
  then show ?thesis by (simp add: sample_ia_def)
qed

section \<open>The reconcilers: the end of a pass that applied everything\<close>

lemma after_Nil: "after [] rest = rest"
  by (simp add: after_def split: prod.split)

lemma after_after: "after xs (after ys rest) = after (xs @ ys) rest"
  by (simp add: after_def split: prod.split)

lemma IA_applyAll_success:
  assumes "\<forall>component \<in> set components. ia_CreateOrUpdateOrDelete env ia component = None"
  shows "IA_applyAll env ia components = after (map ApplyComponent components) (IA_finish env ia)"
  using assms
proof (induction components)
  case Nil
  show ?case by (simp add: after_Nil)
next
  case (Cons component components)
  then show ?case by (simp add: after_after)
qed

lemma IA_finish_value:
  "IA_finish env ia =
     (if \<not> IsAvailable env
      then ([StatusClearDegraded], \<lparr>Requeue = False, RequeueAfter = 30 * Second\<rparr>, None)
      else ([StatusClearDegraded, UpdateCRStatus (ia\<lparr>IA_Status_State := TigeraStatusReady\<rparr>)],
            empty_Result, ia_Status_Update env (ia\<lparr>IA_Status_State := TigeraStatusReady\<rparr>)))"
  by (simp add: IA_finish_def Let_def split: option.split)

lemma RS_finish_value:
  "RS_finish env rs =
     (if \<not> IsAvailable env
      then ([StatusClearDegraded], \<lparr>Requeue = False, RequeueAfter = 30 * Second\<rparr>, None)
      else ([StatusClearDegraded, UpdateCRStatus (rs\<lparr>RS_Status_State := TigeraStatusReady\<rparr>)],
            empty_Result, rs_Status_Update env (rs\<lparr>RS_Status_State := TigeraStatusReady\<rparr>)))"
  by (simp add: RS_finish_def Let_def split: option.split)

lemma IA_authenticated_success:
  assumes auth: "authenticationCR = None \<or>
      (\<exists>a. authenticationCR = Some a \<and> Authentication_Status_State a = TigeraStatusReady)"
    and kvc: "GetKeyValidatorConfig env authenticationCR (clusterDomain env) = Inr kvc"
    and images: "ia_ApplyImageSet env variant
        [Passthrough [tlsSecret],
         ImageAssuranceComponent
           \<lparr>IA_PullSecrets = pullSecrets,
            IA_Installation = Some installation,
            IA_OsType = OSTypeLinux,
            IA_ConfigurationConfigMap = Some configurationConfigMap,
            IA_TLSSecret = tlsSecret,
            KeyValidatorConfig = kvc,
            TrustedCertBundle = Some trustedBundle,
            ScannerAPIAccessToken = Some scannerAPIToken,
            IA_APIProxyURL = APIProxyURL ia\<rparr>,
         CertificateManagementComponent
           \<lparr>CertificateManagement_Namespace = NameSpaceImageAssurance env,
            ServiceAccounts = [ResourceNameImageAssuranceAPI env],
            CertificateManagement_TrustedBundle = Some trustedBundle\<rparr>]
        = (None, components)"
    and applies: "\<forall>component \<in> set components.
        ia_CreateOrUpdateOrDelete env ia component = None"
  shows "IA_authenticated env ia variant installation pullSecrets configurationConfigMap
       trustedBundle tlsSecret scannerAPIToken authenticationCR =
     after (map ApplyComponent components) (IA_finish env ia)"
proof -
  have ready: "\<not> (authenticationCR \<noteq> None \<and>
         (case authenticationCR of
            Some a \<Rightarrow> Authentication_Status_State a \<noteq> TigeraStatusReady
          | None \<Rightarrow> False))"
    using auth by auto
  show ?thesis
    unfolding IA_authenticated_def Let_def
    using auth kvc images
    by (auto simp: IA_applyAll_success [OF applies])
qed

lemma IA_render_apply_success:
  assumes "GetImageSet env variant = Inr imageSet"
    and "ValidateImageSet env imageSet = None"
    and "GetAuthentication env = (authenticationCR, authErr)"
    and "authErr = None \<or> (\<exists>e. authErr = Some e \<and> IsNotFound e)"
    and "authenticationCR = None \<or>
      (\<exists>a. authenticationCR = Some a \<and> Authentication_Status_State a = TigeraStatusReady)"
    and "GetKeyValidatorConfig env authenticationCR (clusterDomain env) = Inr kvc"
    and "ia_ApplyImageSet env variant
        [Passthrough [tlsSecret],
         ImageAssuranceComponent
           \<lparr>IA_PullSecrets = pullSecrets,
            IA_Installation = Some installation,
            IA_OsType = OSTypeLinux,
            IA_ConfigurationConfigMap = Some configurationConfigMap,
            IA_TLSSecret = tlsSecret,
            KeyValidatorConfig = kvc,
            TrustedCertBundle = Some trustedBundle,
            ScannerAPIAccessToken = Some scannerAPIToken,
            IA_APIProxyURL = APIProxyURL ia\<rparr>,
         CertificateManagementComponent
           \<lparr>CertificateManagement_Namespace = NameSpaceImageAssurance env,
            ServiceAccounts = [ResourceNameImageAssuranceAPI env],
            CertificateManagement_TrustedBundle = Some trustedBundle\<rparr>]
        = (None, components)"
    and "\<forall>component \<in> set components. ia_CreateOrUpdateOrDelete env ia component = None"
  shows "IA_render_apply env ia variant installation pullSecrets configurationConfigMap
       trustedBundle tlsSecret scannerAPIToken =
     after (map ApplyComponent components) (IA_finish env ia)"
proof -
  have "IA_render_apply env ia variant installation pullSecrets configurationConfigMap
       trustedBundle tlsSecret scannerAPIToken =
     IA_authenticated env ia variant installation pullSecrets configurationConfigMap trustedBundle
       tlsSecret scannerAPIToken authenticationCR"
    using assms(1-4) by (auto simp: IA_render_apply_def)
  then show ?thesis
    using IA_authenticated_success [OF assms(5) assms(6) assms(7) assms(8)] by simp
qed

lemma Reconcile_IA_success:
  assumes "GetImageAssurance env = Inr ia"
    and "GetInstallation env = Inr (variant, installation)"
    and "GetNetworkingPullSecrets env installation = Inr pullSecrets"
    and "GetImageAssuranceConfigurationConfigMap env = Inr configurationConfigMap"
    and "APIProxyURL ia \<noteq> []"
    and "certificatemanager_Create env installation (clusterDomain env) = Inr certificateManager"
    and "GetCertificate certificateManager (ManagerInternalTLSSecretName env)
           (OperatorNamespace env) = Inr (Some internalMgrSecret)"
    and "getAPICertSecret env = Inr tlsSecret"
    and "getAPIAccessToken env (ScannerAPIAccessServiceAccountName env) = Inr (Some scannerAPIToken)"
    and "GetImageSet env variant = Inr imageSet"
    and "ValidateImageSet env imageSet = None"
    and "GetAuthentication env = (authenticationCR, authErr)"
    and "authErr = None \<or> (\<exists>e. authErr = Some e \<and> IsNotFound e)"
    and "authenticationCR = None \<or>
      (\<exists>a. authenticationCR = Some a \<and> Authentication_Status_State a = TigeraStatusReady)"
    and "GetKeyValidatorConfig env authenticationCR (clusterDomain env) = Inr kvc"
    and "ia_ApplyImageSet env variant
        [Passthrough [tlsSecret],
         ImageAssuranceComponent
           \<lparr>IA_PullSecrets = pullSecrets,
            IA_Installation = Some installation,
            IA_OsType = OSTypeLinux,
            IA_ConfigurationConfigMap = Some configurationConfigMap,
            IA_TLSSecret = tlsSecret,
            KeyValidatorConfig = kvc,
            TrustedCertBundle = Some (CreateTrustedBundle certificateManager [Some internalMgrSecret]),
            ScannerAPIAccessToken = Some scannerAPIToken,
            IA_APIProxyURL = APIProxyURL ia\<rparr>,
         CertificateManagementComponent
           \<lparr>CertificateManagement_Namespace = NameSpaceImageAssurance env,
            ServiceAccounts = [ResourceNameImageAssuranceAPI env],
            CertificateManagement_TrustedBundle =
              Some (CreateTrustedBundle certificateManager [Some internalMgrSecret])\<rparr>]
        = (None, components)"
    and "\<forall>component \<in> set components. ia_CreateOrUpdateOrDelete env ia component = None"
  shows "Reconcile_IA env =
       (if \<not> IsAvailable env
        then (StatusOnCRFound # map ApplyComponent components @ [StatusClearDegraded],
              \<lparr>Requeue = False, RequeueAfter = 30 * Second\<rparr>, None)
        else (StatusOnCRFound # map ApplyComponent components @
                [StatusClearDegraded,
                 UpdateCRStatus (ia\<lparr>IA_Status_State := TigeraStatusReady\<rparr>)],
              empty_Result,
              ia_Status_Update env (ia\<lparr>IA_Status_State := TigeraStatusReady\<rparr>)))"
proof -
  have a: "IA_render_apply env ia variant installation pullSecrets configurationConfigMap
       (CreateTrustedBundle certificateManager [Some internalMgrSecret]) tlsSecret scannerAPIToken =
     after (map ApplyComponent components) (IA_finish env ia)"
    by (rule IA_render_apply_success [OF assms(10-17)])
  have c: "IA_certificates env ia variant installation pullSecrets configurationConfigMap =
      after (map ApplyComponent components) (IA_finish env ia)"
    using assms(6-9) a by (simp add: IA_certificates_def)
  have "Reconcile_IA env = after [StatusOnCRFound]
      (after (map ApplyComponent components) (IA_finish env ia))"
    using assms(1-5) c by (simp add: Reconcile_IA_def)
  then have "Reconcile_IA env =
      after (StatusOnCRFound # map ApplyComponent components) (IA_finish env ia)"
    by (simp add: after_after)
  then show ?thesis
    by (simp add: IA_finish_value after_def)
qed

lemma Reconcile_RS_success:
  assumes "client_Get_RuntimeSecurity env = Inr rs"
    and "GetInstallation env = Inr (TigeraSecureEnterprise, installation)"
    and "GetNetworkingPullSecrets env installation = Inr pullSecrets"
    and "GetElasticsearchClusterConfig env = Inr esClusterConfig"
    and "ElasticsearchSecrets env [ElasticsearchSashaJobUserSecretName] = Inr ss"
    and "certificatemanager_Create env installation (clusterDomain env) = Inr certificateManager"
    and "GetCertificate certificateManager (PublicCertSecret env) (OperatorNamespace env)
           = Inr (Some esgwCertificate)"
    and "rs_ApplyImageSet env TigeraSecureEnterprise
           \<lparr>PullSecrets = pullSecrets,
            Installation = Some installation,
            OsType = OSTypeLinux,
            SashaESSecrets = ss,
            ESClusterConfig = Some esClusterConfig,
            ESSecrets = [],
            ClusterDomain = clusterDomain env,
            TrustedBundle = Some (CreateTrustedBundle certificateManager [Some esgwCertificate]),
            RuntimeSecuritySpec = None,
            sashaImage = [],
            threatIdImage = []\<rparr>
         = (None, component)"
    and "rs_CreateOrUpdateOrDelete env rs component = None"
  shows "Reconcile_RS env =
       (if \<not> IsAvailable env
        then ([StatusOnCRFound, ApplyComponent component, StatusClearDegraded],
              \<lparr>Requeue = False, RequeueAfter = 30 * Second\<rparr>, None)
        else ([StatusOnCRFound, ApplyComponent component, StatusClearDegraded,
               UpdateCRStatus (rs\<lparr>RS_Status_State := TigeraStatusReady\<rparr>)],
              empty_Result,
              rs_Status_Update env (rs\<lparr>RS_Status_State := TigeraStatusReady\<rparr>)))"
proof -
  have "RS_prerequisites env rs TigeraSecureEnterprise installation =
      after [ApplyComponent component] (RS_finish env rs)"
    using assms(3-9) by (simp add: RS_prerequisites_def RS_apply_def Let_def)
  then have "Reconcile_RS env =
      after [StatusOnCRFound, ApplyComponent component] (RS_finish env rs)"
    using assms(1,2) by (simp add: Reconcile_RS_def getRuntimeSecurity_def after_after)
  then show ?thesis
    by (simp add: RS_finish_value after_def)
qed

text \<open>
  C4. In a pass in which every prerequisite is read and every apply step succeeds (the
  image-set helper on the components the pass has built, and \<open>CreateOrUpdateOrDelete\<close>
  on each component it then applies), the reconciler calls \<open>ClearDegraded\<close> after the
  applies. If the status tracker's \<open>IsAvailable()\<close> is false, that is the last effect:
  the pass returns a result asking for a requeue after 30 seconds, with a nil error, and
  writes no status. If it is true, the pass then updates the custom resource's status with
  the state Ready and returns the empty result, with the error of that update. This holds
  for the ImageAssurance and for the RuntimeSecurity reconciler.
\<close>

theorem reconcile_requeue_or_ready:
  "(GetImageAssurance ia_env = Inr ia \<and>
    GetInstallation ia_env = Inr (variant, installation) \<and>
    GetNetworkingPullSecrets ia_env installation = Inr pullSecrets \<and>
    GetImageAssuranceConfigurationConfigMap ia_env = Inr configurationConfigMap \<and>
    APIProxyURL ia \<noteq> [] \<and>
    certificatemanager_Create ia_env installation (clusterDomain ia_env) = Inr certificateManager \<and>
    GetCertificate certificateManager (ManagerInternalTLSSecretName ia_env)
      (OperatorNamespace ia_env) = Inr (Some internalMgrSecret) \<and>
    getAPICertSecret ia_env = Inr tlsSecret \<and>
    getAPIAccessToken ia_env (ScannerAPIAccessServiceAccountName ia_env)
      = Inr (Some scannerAPIToken) \<and>
    GetImageSet ia_env variant = Inr imageSet \<and>
    ValidateImageSet ia_env imageSet = None \<and>
    GetAuthentication ia_env = (authenticationCR, authErr) \<and>
    (authErr = None \<or> (\<exists>e. authErr = Some e \<and> IsNotFound e)) \<and>
    (authenticationCR = None \<or>
      (\<exists>a. authenticationCR = Some a \<and> Authentication_Status_State a = TigeraStatusReady)) \<and>
    GetKeyValidatorConfig ia_env authenticationCR (clusterDomain ia_env) = Inr kvc \<and>
    ia_ApplyImageSet ia_env variant
      [Passthrough [tlsSecret],
       ImageAssuranceComponent
         \<lparr>IA_PullSecrets = pullSecrets,
          IA_Installation = Some installation,
          IA_OsType = OSTypeLinux,
          IA_ConfigurationConfigMap = Some configurationConfigMap,
          IA_TLSSecret = tlsSecret,
          KeyValidatorConfig = kvc,
          TrustedCertBundle = Some (CreateTrustedBundle certificateManager [Some internalMgrSecret]),
          ScannerAPIAccessToken = Some scannerAPIToken,
          IA_APIProxyURL = APIProxyURL ia\<rparr>,
       CertificateManagementComponent
         \<lparr>CertificateManagement_Namespace = NameSpaceImageAssurance ia_env,
          ServiceAccounts = [ResourceNameImageAssuranceAPI ia_env],
          CertificateManagement_TrustedBundle =
            Some (CreateTrustedBundle certificateManager [Some internalMgrSecret])\<rparr>]
      = (None, components) \<and>
    (\<forall>component \<in> set components. ia_CreateOrUpdateOrDelete ia_env ia component = None)
    \<longrightarrow>
    Reconcile_IA ia_env =
      (if \<not> IsAvailable ia_env
       then (StatusOnCRFound # map ApplyComponent components @ [StatusClearDegraded],
             \<lparr>Requeue = False, RequeueAfter = 30 * Second\<rparr>, None)
       else (StatusOnCRFound # map ApplyComponent components @
               [StatusClearDegraded,
                UpdateCRStatus (ia\<lparr>IA_Status_State := TigeraStatusReady\<rparr>)],
             empty_Result,
             ia_Status_Update ia_env (ia\<lparr>IA_Status_State := TigeraStatusReady\<rparr>)))) \<and>
   (client_Get_RuntimeSecurity rs_env = Inr rs \<and>
    GetInstallation rs_env = Inr (TigeraSecureEnterprise, rs_installation) \<and>
    GetNetworkingPullSecrets rs_env rs_installation = Inr rs_pullSecrets \<and>
    GetElasticsearchClusterConfig rs_env = Inr esClusterConfig \<and>
    ElasticsearchSecrets rs_env [ElasticsearchSashaJobUserSecretName] = Inr ss \<and>
    certificatemanager_Create rs_env rs_installation (clusterDomain rs_env)
      = Inr rs_certificateManager \<and>
    GetCertificate rs_certificateManager (PublicCertSecret rs_env) (OperatorNamespace rs_env)
      = Inr (Some esgwCertificate) \<and>
    rs_ApplyImageSet rs_env TigeraSecureEnterprise
      \<lparr>PullSecrets = rs_pullSecrets,
       Installation = Some rs_installation,
       OsType = OSTypeLinux,
       SashaESSecrets = ss,
       ESClusterConfig = Some esClusterConfig,
       ESSecrets = [],
       ClusterDomain = clusterDomain rs_env,
       TrustedBundle = Some (CreateTrustedBundle rs_certificateManager [Some esgwCertificate]),
       RuntimeSecuritySpec = None,
       sashaImage = [],
       threatIdImage = []\<rparr>
      = (None, rs_component) \<and>
    rs_CreateOrUpdateOrDelete rs_env rs rs_component = None
    \<longrightarrow>
    Reconcile_RS rs_env =
      (if \<not> IsAvailable rs_env
       then ([StatusOnCRFound, ApplyComponent rs_component, StatusClearDegraded],
             \<lparr>Requeue = False, RequeueAfter = 30 * Second\<rparr>, None)
       else ([StatusOnCRFound, ApplyComponent rs_component, StatusClearDegraded,
              UpdateCRStatus (rs\<lparr>RS_Status_State := TigeraStatusReady\<rparr>)],
             empty_Result,
             rs_Status_Update rs_env (rs\<lparr>RS_Status_State := TigeraStatusReady\<rparr>))))"
proof (intro conjI impI)
  assume h: "GetImageAssurance ia_env = Inr ia \<and>
    GetInstallation ia_env = Inr (variant, installation) \<and>
    GetNetworkingPullSecrets ia_env installation = Inr pullSecrets \<and>
    GetImageAssuranceConfigurationConfigMap ia_env = Inr configurationConfigMap \<and>
    APIProxyURL ia \<noteq> [] \<and>
    certificatemanager_Create ia_env installation (clusterDomain ia_env) = Inr certificateManager \<and>
    GetCertificate certificateManager (ManagerInternalTLSSecretName ia_env)
      (OperatorNamespace ia_env) = Inr (Some internalMgrSecret) \<and>
    getAPICertSecret ia_env = Inr tlsSecret \<and>
    getAPIAccessToken ia_env (ScannerAPIAccessServiceAccountName ia_env)
      = Inr (Some scannerAPIToken) \<and>
    GetImageSet ia_env variant = Inr imageSet \<and>
    ValidateImageSet ia_env imageSet = None \<and>
    GetAuthentication ia_env = (authenticationCR, authErr) \<and>
    (authErr = None \<or> (\<exists>e. authErr = Some e \<and> IsNotFound e)) \<and>
    (authenticationCR = None \<or>
      (\<exists>a. authenticationCR = Some a \<and> Authentication_Status_State a = TigeraStatusReady)) \<and>
    GetKeyValidatorConfig ia_env authenticationCR (clusterDomain ia_env) = Inr kvc \<and>
    ia_ApplyImageSet ia_env variant
      [Passthrough [tlsSecret],
       ImageAssuranceComponent
         \<lparr>IA_PullSecrets = pullSecrets,
          IA_Installation = Some installation,
          IA_OsType = OSTypeLinux,
          IA_ConfigurationConfigMap = Some configurationConfigMap,
          IA_TLSSecret = tlsSecret,
          KeyValidatorConfig = kvc,
          TrustedCertBundle = Some (CreateTrustedBundle certificateManager [Some internalMgrSecret]),
          ScannerAPIAccessToken = Some scannerAPIToken,
          IA_APIProxyURL = APIProxyURL ia\<rparr>,
       CertificateManagementComponent
         \<lparr>CertificateManagement_Namespace = NameSpaceImageAssurance ia_env,
          ServiceAccounts = [ResourceNameImageAssuranceAPI ia_env],
          CertificateManagement_TrustedBundle =
            Some (CreateTrustedBundle certificateManager [Some internalMgrSecret])\<rparr>]
      = (None, components) \<and>
    (\<forall>component \<in> set components. ia_CreateOrUpdateOrDelete ia_env ia component = None)"
  show "Reconcile_IA ia_env =
      (if \<not> IsAvailable ia_env
       then (StatusOnCRFound # map ApplyComponent components @ [StatusClearDegraded],
             \<lparr>Requeue = False, RequeueAfter = 30 * Second\<rparr>, None)
       else (StatusOnCRFound # map ApplyComponent components @
               [StatusClearDegraded,
                UpdateCRStatus (ia\<lparr>IA_Status_State := TigeraStatusReady\<rparr>)],
             empty_Result,
             ia_Status_Update ia_env (ia\<lparr>IA_Status_State := TigeraStatusReady\<rparr>)))"
    by (rule Reconcile_IA_success [of ia_env ia variant installation pullSecrets
          configurationConfigMap certificateManager internalMgrSecret tlsSecret scannerAPIToken
          imageSet authenticationCR authErr kvc components]) (use h in blast)+
next
  assume h: "client_Get_RuntimeSecurity rs_env = Inr rs \<and>
    GetInstallation rs_env = Inr (TigeraSecureEnterprise, rs_installation) \<and>
    GetNetworkingPullSecrets rs_env rs_installation = Inr rs_pullSecrets \<and>
    GetElasticsearchClusterConfig rs_env = Inr esClusterConfig \<and>
    ElasticsearchSecrets rs_env [ElasticsearchSashaJobUserSecretName] = Inr ss \<and>
    certificatemanager_Create rs_env rs_installation (clusterDomain rs_env)
      = Inr rs_certificateManager \<and>
    GetCertificate rs_certificateManager (PublicCertSecret rs_env) (OperatorNamespace rs_env)
      = Inr (Some esgwCertificate) \<and>
    rs_ApplyImageSet rs_env TigeraSecureEnterprise
      \<lparr>PullSecrets = rs_pullSecrets,
       Installation = Some rs_installation,
       OsType = OSTypeLinux,
       SashaESSecrets = ss,
       ESClusterConfig = Some esClusterConfig,
       ESSecrets = [],
       ClusterDomain = clusterDomain rs_env,
       TrustedBundle = Some (CreateTrustedBundle rs_certificateManager [Some esgwCertificate]),
       RuntimeSecuritySpec = None,
       sashaImage = [],
       threatIdImage = []\<rparr>
      = (None, rs_component) \<and>
    rs_CreateOrUpdateOrDelete rs_env rs rs_component = None"
  show "Reconcile_RS rs_env =
      (if \<not> IsAvailable rs_env
       then ([StatusOnCRFound, ApplyComponent rs_component, StatusClearDegraded],
             \<lparr>Requeue = False, RequeueAfter = 30 * Second\<rparr>, None)
       else ([StatusOnCRFound, ApplyComponent rs_component, StatusClearDegraded,
              UpdateCRStatus (rs\<lparr>RS_Status_State := TigeraStatusReady\<rparr>)],
             empty_Result,
             rs_Status_Update rs_env (rs\<lparr>RS_Status_State := TigeraStatusReady\<rparr>)))"
    by (rule Reconcile_RS_success [of rs_env rs rs_installation rs_pullSecrets esClusterConfig ss
          rs_certificateManager esgwCertificate rs_component]) (use h in blast)+
qed

lemma sample_ia_prerequisites:
  "GetImageAssurance (sample_ia_cluster v a ''https://proxy'') = Inr (sample_ia ''https://proxy'') \<and>
    GetInstallation (sample_ia_cluster v a ''https://proxy'') = Inr (v, sample_installation) \<and>
    GetNetworkingPullSecrets (sample_ia_cluster v a ''https://proxy'') sample_installation
      = Inr [sample_secret ''tigera-pull-secret''] \<and>
    GetImageAssuranceConfigurationConfigMap (sample_ia_cluster v a ''https://proxy'')
      = Inr sample_configuration_configmap \<and>
    APIProxyURL (sample_ia ''https://proxy'') \<noteq> [] \<and>
    certificatemanager_Create (sample_ia_cluster v a ''https://proxy'') sample_installation
      (clusterDomain (sample_ia_cluster v a ''https://proxy'')) = Inr sample_certificate_manager \<and>
    GetCertificate sample_certificate_manager
      (ManagerInternalTLSSecretName (sample_ia_cluster v a ''https://proxy''))
      (OperatorNamespace (sample_ia_cluster v a ''https://proxy''))
      = Inr (Some (Certificate ''internal-manager-tls'')) \<and>
    getAPICertSecret (sample_ia_cluster v a ''https://proxy'')
      = Inr (Some (sample_secret ''tigera-image-assurance-api-cert'')) \<and>
    getAPIAccessToken (sample_ia_cluster v a ''https://proxy'')
      (ScannerAPIAccessServiceAccountName (sample_ia_cluster v a ''https://proxy''))
      = Inr (Some ''eyJhbGciOi'') \<and>
    GetImageSet (sample_ia_cluster v a ''https://proxy'') v = Inr None \<and>
    ValidateImageSet (sample_ia_cluster v a ''https://proxy'') None = None \<and>
    GetAuthentication (sample_ia_cluster v a ''https://proxy'') = (None, Some sample_not_found) \<and>
    (Some sample_not_found = None \<or> (\<exists>e. Some sample_not_found = Some e \<and> IsNotFound e)) \<and>
    ((None :: Authentication_CR option) = None \<or>
      (\<exists>a. None = Some a \<and> Authentication_Status_State a = TigeraStatusReady)) \<and>
    GetKeyValidatorConfig (sample_ia_cluster v a ''https://proxy'') None
      (clusterDomain (sample_ia_cluster v a ''https://proxy'')) = Inr None \<and>
    ia_ApplyImageSet (sample_ia_cluster v a ''https://proxy'') v
      [Passthrough [Some (sample_secret ''tigera-image-assurance-api-cert'')],
       ImageAssuranceComponent
         \<lparr>IA_PullSecrets = [sample_secret ''tigera-pull-secret''],
          IA_Installation = Some sample_installation,
          IA_OsType = OSTypeLinux,
          IA_ConfigurationConfigMap = Some sample_configuration_configmap,
          IA_TLSSecret = Some (sample_secret ''tigera-image-assurance-api-cert''),
          KeyValidatorConfig = None,
          TrustedCertBundle = Some (CreateTrustedBundle sample_certificate_manager
                                      [Some (Certificate ''internal-manager-tls'')]),
          ScannerAPIAccessToken = Some ''eyJhbGciOi'',
          IA_APIProxyURL = APIProxyURL (sample_ia ''https://proxy'')\<rparr>,
       CertificateManagementComponent
         \<lparr>CertificateManagement_Namespace =
            NameSpaceImageAssurance (sample_ia_cluster v a ''https://proxy''),
          ServiceAccounts = [ResourceNameImageAssuranceAPI (sample_ia_cluster v a ''https://proxy'')],
          CertificateManagement_TrustedBundle =
            Some (CreateTrustedBundle sample_certificate_manager
                    [Some (Certificate ''internal-manager-tls'')])\<rparr>]
      = (None,
         [Passthrough [Some (sample_secret ''tigera-image-assurance-api-cert'')],
          ImageAssuranceComponent
            \<lparr>IA_PullSecrets = [sample_secret ''tigera-pull-secret''],
             IA_Installation = Some sample_installation,
             IA_OsType = OSTypeLinux,
             IA_ConfigurationConfigMap = Some sample_configuration_configmap,
             IA_TLSSecret = Some (sample_secret ''tigera-image-assurance-api-cert''),
             KeyValidatorConfig = None,
             TrustedCertBundle = Some sample_bundle,
             ScannerAPIAccessToken = Some ''eyJhbGciOi'',
             IA_APIProxyURL = ''https://proxy''\<rparr>,
          CertificateManagementComponent
            \<lparr>CertificateManagement_Namespace = ''tigera-image-assurance'',
             ServiceAccounts = [''tigera-image-assurance-api''],
             CertificateManagement_TrustedBundle = Some sample_bundle\<rparr>]) \<and>
    (\<forall>component \<in> set
         [Passthrough [Some (sample_secret ''tigera-image-assurance-api-cert'')],
          ImageAssuranceComponent
            \<lparr>IA_PullSecrets = [sample_secret ''tigera-pull-secret''],
             IA_Installation = Some sample_installation,
             IA_OsType = OSTypeLinux,
             IA_ConfigurationConfigMap = Some sample_configuration_configmap,
             IA_TLSSecret = Some (sample_secret ''tigera-image-assurance-api-cert''),
             KeyValidatorConfig = None,
             TrustedCertBundle = Some sample_bundle,
             ScannerAPIAccessToken = Some ''eyJhbGciOi'',
             IA_APIProxyURL = ''https://proxy''\<rparr>,
          CertificateManagementComponent
            \<lparr>CertificateManagement_Namespace = ''tigera-image-assurance'',
             ServiceAccounts = [''tigera-image-assurance-api''],
             CertificateManagement_TrustedBundle = Some sample_bundle\<rparr>].
       ia_CreateOrUpdateOrDelete (sample_ia_cluster v a ''https://proxy'')
         (sample_ia ''https://proxy'') component = None)"
  by (simp add: sample_ia_cluster_def sample_ia_def sample_certificate_manager_def
      getAPICertSecret_def getAPIAccessToken_def sample_service_account_def
      sample_token_secret_def sample_not_found_def)

lemma sample_rs_prerequisites:
  "client_Get_RuntimeSecurity (sample_rs_cluster TigeraSecureEnterprise a) = Inr sample_rs \<and>
    GetInstallation (sample_rs_cluster TigeraSecureEnterprise a)
      = Inr (TigeraSecureEnterprise, sample_installation) \<and>
    GetNetworkingPullSecrets (sample_rs_cluster TigeraSecureEnterprise a) sample_installation
      = Inr [sample_secret ''tigera-pull-secret''] \<and>
    GetElasticsearchClusterConfig (sample_rs_cluster TigeraSecureEnterprise a)
      = Inr \<lparr>ClusterName = ''cluster''\<rparr> \<and>
    ElasticsearchSecrets (sample_rs_cluster TigeraSecureEnterprise a)
      [ElasticsearchSashaJobUserSecretName] = Inr [sample_secret ElasticsearchSashaJobUserSecretName] \<and>
    certificatemanager_Create (sample_rs_cluster TigeraSecureEnterprise a) sample_installation
      (clusterDomain (sample_rs_cluster TigeraSecureEnterprise a)) = Inr sample_certificate_manager \<and>
    GetCertificate sample_certificate_manager
      (PublicCertSecret (sample_rs_cluster TigeraSecureEnterprise a))
      (OperatorNamespace (sample_rs_cluster TigeraSecureEnterprise a))
      = Inr (Some (Certificate ''tigera-secure-es-gateway-http-certs-public'')) \<and>
    rs_ApplyImageSet (sample_rs_cluster TigeraSecureEnterprise a) TigeraSecureEnterprise
      \<lparr>PullSecrets = [sample_secret ''tigera-pull-secret''],
       Installation = Some sample_installation,
       OsType = OSTypeLinux,
       SashaESSecrets = [sample_secret ElasticsearchSashaJobUserSecretName],
       ESClusterConfig = Some \<lparr>ClusterName = ''cluster''\<rparr>,
       ESSecrets = [],
       ClusterDomain = clusterDomain (sample_rs_cluster TigeraSecureEnterprise a),
       TrustedBundle = Some (CreateTrustedBundle sample_certificate_manager
                               [Some (Certificate ''tigera-secure-es-gateway-http-certs-public'')]),
       RuntimeSecuritySpec = None,
       sashaImage = [],
       threatIdImage = []\<rparr>
      = (None,
         \<lparr>PullSecrets = [sample_secret ''tigera-pull-secret''],
          Installation = Some sample_installation,
          OsType = OSTypeLinux,
          SashaESSecrets = [sample_secret ElasticsearchSashaJobUserSecretName],
          ESClusterConfig = Some \<lparr>ClusterName = ''cluster''\<rparr>,
          ESSecrets = [],
          ClusterDomain = ''cluster.local'',
          TrustedBundle = Some sample_bundle,
          RuntimeSecuritySpec = None,
          sashaImage = ''quay.io/tigera/sasha'',
          threatIdImage = ''quay.io/tigera/threat-id''\<rparr>) \<and>
    rs_CreateOrUpdateOrDelete (sample_rs_cluster TigeraSecureEnterprise a) sample_rs
      \<lparr>PullSecrets = [sample_secret ''tigera-pull-secret''],
       Installation = Some sample_installation,
       OsType = OSTypeLinux,
       SashaESSecrets = [sample_secret ElasticsearchSashaJobUserSecretName],
       ESClusterConfig = Some \<lparr>ClusterName = ''cluster''\<rparr>,
       ESSecrets = [],
       ClusterDomain = ''cluster.local'',
       TrustedBundle = Some sample_bundle,
       RuntimeSecuritySpec = None,
       sashaImage = ''quay.io/tigera/sasha'',
       threatIdImage = ''quay.io/tigera/threat-id''\<rparr> = None"
  by (simp add: sample_rs_cluster_def sample_certificate_manager_def)

theorem reconcile_requeue_or_ready_witness:
  "\<not> IsAvailable (sample_ia_cluster TigeraSecureEnterprise False ''https://proxy'') \<and>
   (\<exists>c1 c2 c3. Reconcile_IA (sample_ia_cluster TigeraSecureEnterprise False ''https://proxy'') =
      ([StatusOnCRFound, ApplyComponent c1, ApplyComponent c2, ApplyComponent c3,
        StatusClearDegraded],
       \<lparr>Requeue = False, RequeueAfter = 30000000000\<rparr>, None)) \<and>
   IsAvailable (sample_ia_cluster TigeraSecureEnterprise True ''https://proxy'') \<and>
   (\<exists>c1 c2 c3. Reconcile_IA (sample_ia_cluster TigeraSecureEnterprise True ''https://proxy'') =
      ([StatusOnCRFound, ApplyComponent c1, ApplyComponent c2, ApplyComponent c3,
        StatusClearDegraded,
        UpdateCRStatus ((sample_ia ''https://proxy'')\<lparr>IA_Status_State := ''Ready''\<rparr>)],
       empty_Result, None)) \<and>
   (\<exists>component. Reconcile_RS (sample_rs_cluster TigeraSecureEnterprise False) =
      ([StatusOnCRFound, ApplyComponent component, StatusClearDegraded],
       \<lparr>Requeue = False, RequeueAfter = 30000000000\<rparr>, None)) \<and>
   (\<exists>component. Reconcile_RS (sample_rs_cluster TigeraSecureEnterprise True) =
      ([StatusOnCRFound, ApplyComponent component, StatusClearDegraded,
        UpdateCRStatus (sample_rs\<lparr>RS_Status_State := ''Ready''\<rparr>)],
       empty_Result, None))"
proof -
  let ?ia = "\<lambda>a. sample_ia_cluster TigeraSecureEnterprise a ''https://proxy''"
  let ?rs = "\<lambda>a. sample_rs_cluster TigeraSecureEnterprise a"
  have av: "\<And>a. IsAvailable (?ia a) = a" "\<And>a. IsAvailable (?rs a) = a"
    "\<And>a x. ia_Status_Update (?ia a) x = None" "\<And>a x. rs_Status_Update (?rs a) x = None"
    by (simp_all add: sample_ia_cluster_def sample_rs_cluster_def)
  have ia_no: "\<exists>c1 c2 c3. Reconcile_IA (?ia False) =
      ([StatusOnCRFound, ApplyComponent c1, ApplyComponent c2, ApplyComponent c3,
        StatusClearDegraded],
       \<lparr>Requeue = False, RequeueAfter = 30000000000\<rparr>, None)"
    using mp [OF conjunct1 [OF reconcile_requeue_or_ready]
                 sample_ia_prerequisites [of TigeraSecureEnterprise False]]
    by (simp add: av Second_def)
  have ia_yes: "\<exists>c1 c2 c3. Reconcile_IA (?ia True) =
      ([StatusOnCRFound, ApplyComponent c1, ApplyComponent c2, ApplyComponent c3,
        StatusClearDegraded,
        UpdateCRStatus ((sample_ia ''https://proxy'')\<lparr>IA_Status_State := ''Ready''\<rparr>)],
       empty_Result, None)"
    using mp [OF conjunct1 [OF reconcile_requeue_or_ready]
                 sample_ia_prerequisites [of TigeraSecureEnterprise True]]
    by (simp add: av TigeraStatusReady_def)
  have rs_no: "\<exists>component. Reconcile_RS (?rs False) =
      ([StatusOnCRFound, ApplyComponent component, StatusClearDegraded],
       \<lparr>Requeue = False, RequeueAfter = 30000000000\<rparr>, None)"
    using mp [OF conjunct2 [OF reconcile_requeue_or_ready] sample_rs_prerequisites [of False]]
    by (simp add: av Second_def)
  have rs_yes: "\<exists>component. Reconcile_RS (?rs True) =
      ([StatusOnCRFound, ApplyComponent component, StatusClearDegraded,
        UpdateCRStatus (sample_rs\<lparr>RS_Status_State := ''Ready''\<rparr>)],
       empty_Result, None)"
    using mp [OF conjunct2 [OF reconcile_requeue_or_ready] sample_rs_prerequisites [of True]]
    by (simp add: av TigeraStatusReady_def)
  from ia_no ia_yes rs_no rs_yes show ?thesis
    by (simp add: av)
qed

section \<open>The reconcilers: a prerequisite read that fails\<close>

lemma IA_configmap_read_failure:
  assumes "GetImageAssurance env = Inr ia"
    and "GetInstallation env = Inr (variant, installation)"
    and "GetNetworkingPullSecrets env installation = Inr pullSecrets"
    and "GetImageAssuranceConfigurationConfigMap env = Inl err"
  shows "Reconcile_IA env =
     (if IsNotFound err
      then ([StatusOnCRFound,
             StatusSetDegraded
               (ConfigurationConfigMapName (rcimageassurance env) @ '' ConfigMap not found'')
               (Error err)],
            empty_Result, None)
      else ([StatusOnCRFound,
             StatusSetDegraded ''Error retrieving image assurance configuration'' (Error err)],
            empty_Result, Some err))"
  using assms by (simp add: Reconcile_IA_def after_def)

lemma getAPIAccessToken_read_failure:
  "client_Get_ServiceAccount env name (OperatorNamespace env) = Inl err \<Longrightarrow>
     getAPIAccessToken env name = Inl err"
  by (simp add: getAPIAccessToken_def)

lemma IA_reaches_token:
  assumes "GetImageAssurance env = Inr ia"
    and "GetInstallation env = Inr (variant, installation)"
    and "GetNetworkingPullSecrets env installation = Inr pullSecrets"
    and "GetImageAssuranceConfigurationConfigMap env = Inr configurationConfigMap"
    and "APIProxyURL ia \<noteq> []"
    and "certificatemanager_Create env installation (clusterDomain env) = Inr certificateManager"
    and "GetCertificate certificateManager (ManagerInternalTLSSecretName env)
           (OperatorNamespace env) = Inr (Some internalMgrSecret)"
    and "getAPICertSecret env = Inr tlsSecret"
  shows "Reconcile_IA env =
     (case getAPIAccessToken env (ScannerAPIAccessServiceAccountName env) of
        Inl err \<Rightarrow>
          ([StatusOnCRFound,
            StatusSetDegraded ''Error in retrieving scanner API access token'' (Error err)],
           empty_Result, Some err)
      | Inr None \<Rightarrow>
          ([StatusOnCRFound,
            StatusSetDegraded
              ''Waiting for scanner api access service account secret to be available'' []],
           empty_Result, None)
      | Inr (Some scannerAPIToken) \<Rightarrow>
          after [StatusOnCRFound]
            (IA_render_apply env ia variant installation pullSecrets configurationConfigMap
               (CreateTrustedBundle certificateManager [Some internalMgrSecret])
               tlsSecret scannerAPIToken))"
  using assms
  by (simp add: Reconcile_IA_def IA_certificates_def after_def split: sum.split option.split)

lemma RS_elasticsearch_config_read_failure:
  assumes "client_Get_RuntimeSecurity env = Inr rs"
    and "GetInstallation env = Inr (TigeraSecureEnterprise, installation)"
    and "GetNetworkingPullSecrets env installation = Inr pullSecrets"
    and "GetElasticsearchClusterConfig env = Inl err"
  shows "Reconcile_RS env =
     (if IsNotFound err
      then ([StatusOnCRFound,
             RS_SetDegraded env
               ''Elasticsearch cluster configuration is not available, waiting for it to become available''
               (Error err)],
            empty_Result, None)
      else ([StatusOnCRFound,
             RS_SetDegraded env ''Failed to get the elasticsearch cluster configuration''
               (Error err)],
            empty_Result, Some err))"
  using assms
  by (simp add: Reconcile_RS_def getRuntimeSecurity_def RS_prerequisites_def after_def)

lemma RS_elasticsearch_secrets_read_failure:
  assumes "client_Get_RuntimeSecurity env = Inr rs"
    and "GetInstallation env = Inr (TigeraSecureEnterprise, installation)"
    and "GetNetworkingPullSecrets env installation = Inr pullSecrets"
    and "GetElasticsearchClusterConfig env = Inr esClusterConfig"
    and "ElasticsearchSecrets env [ElasticsearchSashaJobUserSecretName] = Inl err"
  shows "Reconcile_RS env =
     (if IsNotFound err
      then ([StatusOnCRFound,
             RS_SetDegraded env
               ''Elasticsearch secrets are not available yet, waiting until they become available''
               (Error err)],
            empty_Result, None)
      else ([StatusOnCRFound,
             RS_SetDegraded env ''Failed to get Elasticsearch credentials'' (Error err)],
            empty_Result, Some err))"
  using assms
  by (simp add: Reconcile_RS_def getRuntimeSecurity_def RS_prerequisites_def after_def)

text \<open>
  C2, as amended. For the reads that the reconcilers test with \<open>errors.IsNotFound\<close>,
  which are the ImageAssurance configuration config map and the Elasticsearch cluster
  configuration and Elasticsearch secrets of the RuntimeSecurity reconciler, a not-found
  answer sets Degraded with a message and returns the empty result with a nil error, and
  any other failure sets Degraded and returns that error. The lookup of the ImageAssurance
  scanner's API access token makes no such difference: an error of the service-account
  read is the error of \<open>getAPIAccessToken\<close>, and every error of \<open>getAPIAccessToken\<close>,
  not-found included, sets Degraded with "Error in retrieving scanner API access token"
  and is returned; only a nil token sets Degraded with a waiting message and returns a
  nil error.
\<close>

theorem prerequisite_read_failures:
  "(GetImageAssurance ia_env = Inr ia \<and>
    GetInstallation ia_env = Inr (variant, installation) \<and>
    GetNetworkingPullSecrets ia_env installation = Inr pullSecrets \<and>
    GetImageAssuranceConfigurationConfigMap ia_env = Inl err
    \<longrightarrow>
    Reconcile_IA ia_env =
      (if IsNotFound err
       then ([StatusOnCRFound,
              StatusSetDegraded
                (ConfigurationConfigMapName (rcimageassurance ia_env) @ '' ConfigMap not found'')
                (Error err)],
             empty_Result, None)
       else ([StatusOnCRFound,
              StatusSetDegraded ''Error retrieving image assurance configuration'' (Error err)],
             empty_Result, Some err))) \<and>
   (GetImageAssurance ia_env = Inr ia \<and>
    GetInstallation ia_env = Inr (variant, installation) \<and>
    GetNetworkingPullSecrets ia_env installation = Inr pullSecrets \<and>
    GetImageAssuranceConfigurationConfigMap ia_env = Inr configurationConfigMap \<and>
    APIProxyURL ia \<noteq> [] \<and>
    certificatemanager_Create ia_env installation (clusterDomain ia_env) = Inr certificateManager \<and>
    GetCertificate certificateManager (ManagerInternalTLSSecretName ia_env)
      (OperatorNamespace ia_env) = Inr (Some internalMgrSecret) \<and>
    getAPICertSecret ia_env = Inr tlsSecret
    \<longrightarrow>
    (client_Get_ServiceAccount ia_env (ScannerAPIAccessServiceAccountName ia_env)
       (OperatorNamespace ia_env) = Inl sa_err
     \<longrightarrow> getAPIAccessToken ia_env (ScannerAPIAccessServiceAccountName ia_env) = Inl sa_err) \<and>
    (getAPIAccessToken ia_env (ScannerAPIAccessServiceAccountName ia_env) = Inl token_err
     \<longrightarrow> Reconcile_IA ia_env =
           ([StatusOnCRFound,
             StatusSetDegraded ''Error in retrieving scanner API access token''
               (Error token_err)],
            empty_Result, Some token_err)) \<and>
    (getAPIAccessToken ia_env (ScannerAPIAccessServiceAccountName ia_env) = Inr None
     \<longrightarrow> Reconcile_IA ia_env =
           ([StatusOnCRFound,
             StatusSetDegraded
               ''Waiting for scanner api access service account secret to be available'' []],
            empty_Result, None))) \<and>
   (client_Get_RuntimeSecurity rs_env = Inr rs \<and>
    GetInstallation rs_env = Inr (TigeraSecureEnterprise, rs_installation) \<and>
    GetNetworkingPullSecrets rs_env rs_installation = Inr rs_pullSecrets
    \<longrightarrow>
    (GetElasticsearchClusterConfig rs_env = Inl es_err
     \<longrightarrow> Reconcile_RS rs_env =
           (if IsNotFound es_err
            then ([StatusOnCRFound,
                   RS_SetDegraded rs_env
                     ''Elasticsearch cluster configuration is not available, waiting for it to become available''
                     (Error es_err)],
                  empty_Result, None)
            else ([StatusOnCRFound,
                   RS_SetDegraded rs_env
                     ''Failed to get the elasticsearch cluster configuration'' (Error es_err)],
                  empty_Result, Some es_err))) \<and>
    (GetElasticsearchClusterConfig rs_env = Inr esClusterConfig \<and>
     ElasticsearchSecrets rs_env [ElasticsearchSashaJobUserSecretName] = Inl secrets_err
     \<longrightarrow> Reconcile_RS rs_env =
           (if IsNotFound secrets_err
            then ([StatusOnCRFound,
                   RS_SetDegraded rs_env
                     ''Elasticsearch secrets are not available yet, waiting until they become available''
                     (Error secrets_err)],
                  empty_Result, None)
            else ([StatusOnCRFound,
                   RS_SetDegraded rs_env ''Failed to get Elasticsearch credentials''
                     (Error secrets_err)],
                  empty_Result, Some secrets_err))))"
proof (intro conjI impI)
  assume "GetImageAssurance ia_env = Inr ia \<and>
    GetInstallation ia_env = Inr (variant, installation) \<and>
    GetNetworkingPullSecrets ia_env installation = Inr pullSecrets \<and>
    GetImageAssuranceConfigurationConfigMap ia_env = Inl err"
  then show "Reconcile_IA ia_env =
      (if IsNotFound err
       then ([StatusOnCRFound,
              StatusSetDegraded
                (ConfigurationConfigMapName (rcimageassurance ia_env) @ '' ConfigMap not found'')
                (Error err)],
             empty_Result, None)
       else ([StatusOnCRFound,
              StatusSetDegraded ''Error retrieving image assurance configuration'' (Error err)],
             empty_Result, Some err))"
    using IA_configmap_read_failure [of ia_env ia variant installation pullSecrets err] by blast
next
  assume "client_Get_ServiceAccount ia_env (ScannerAPIAccessServiceAccountName ia_env)
       (OperatorNamespace ia_env) = Inl sa_err"
  then show "getAPIAccessToken ia_env (ScannerAPIAccessServiceAccountName ia_env) = Inl sa_err"
    by (rule getAPIAccessToken_read_failure)
next
  assume h: "GetImageAssurance ia_env = Inr ia \<and>
    GetInstallation ia_env = Inr (variant, installation) \<and>
    GetNetworkingPullSecrets ia_env installation = Inr pullSecrets \<and>
    GetImageAssuranceConfigurationConfigMap ia_env = Inr configurationConfigMap \<and>
    APIProxyURL ia \<noteq> [] \<and>
    certificatemanager_Create ia_env installation (clusterDomain ia_env) = Inr certificateManager \<and>
    GetCertificate certificateManager (ManagerInternalTLSSecretName ia_env)
      (OperatorNamespace ia_env) = Inr (Some internalMgrSecret) \<and>
    getAPICertSecret ia_env = Inr tlsSecret"
  assume t: "getAPIAccessToken ia_env (ScannerAPIAccessServiceAccountName ia_env) = Inl token_err"
  from h have "Reconcile_IA ia_env =
     (case getAPIAccessToken ia_env (ScannerAPIAccessServiceAccountName ia_env) of
        Inl err \<Rightarrow>
          ([StatusOnCRFound,
            StatusSetDegraded ''Error in retrieving scanner API access token'' (Error err)],
           empty_Result, Some err)
      | Inr None \<Rightarrow>
          ([StatusOnCRFound,
            StatusSetDegraded
              ''Waiting for scanner api access service account secret to be available'' []],
           empty_Result, None)
      | Inr (Some scannerAPIToken) \<Rightarrow>
          after [StatusOnCRFound]
            (IA_render_apply ia_env ia variant installation pullSecrets configurationConfigMap
               (CreateTrustedBundle certificateManager [Some internalMgrSecret])
               tlsSecret scannerAPIToken))"
    using IA_reaches_token [of ia_env ia variant installation pullSecrets configurationConfigMap
        certificateManager internalMgrSecret tlsSecret] by blast
  with t show "Reconcile_IA ia_env =
           ([StatusOnCRFound,
             StatusSetDegraded ''Error in retrieving scanner API access token''
               (Error token_err)],
            empty_Result, Some token_err)" by simp
next
  assume h: "GetImageAssurance ia_env = Inr ia \<and>
    GetInstallation ia_env = Inr (variant, installation) \<and>
    GetNetworkingPullSecrets ia_env installation = Inr pullSecrets \<and>
    GetImageAssuranceConfigurationConfigMap ia_env = Inr configurationConfigMap \<and>
    APIProxyURL ia \<noteq> [] \<and>
    certificatemanager_Create ia_env installation (clusterDomain ia_env) = Inr certificateManager \<and>
    GetCertificate certificateManager (ManagerInternalTLSSecretName ia_env)
      (OperatorNamespace ia_env) = Inr (Some internalMgrSecret) \<and>
    getAPICertSecret ia_env = Inr tlsSecret"
  assume t: "getAPIAccessToken ia_env (ScannerAPIAccessServiceAccountName ia_env) = Inr None"
  from h have "Reconcile_IA ia_env =
     (case getAPIAccessToken ia_env (ScannerAPIAccessServiceAccountName ia_env) of
        Inl err \<Rightarrow>
          ([StatusOnCRFound,
            StatusSetDegraded ''Error in retrieving scanner API access token'' (Error err)],
           empty_Result, Some err)
      | Inr None \<Rightarrow>
          ([StatusOnCRFound,
            StatusSetDegraded
              ''Waiting for scanner api access service account secret to be available'' []],
           empty_Result, None)
      | Inr (Some scannerAPIToken) \<Rightarrow>
          after [StatusOnCRFound]
            (IA_render_apply ia_env ia variant installation pullSecrets configurationConfigMap
               (CreateTrustedBundle certificateManager [Some internalMgrSecret])
               tlsSecret scannerAPIToken))"
    using IA_reaches_token [of ia_env ia variant installation pullSecrets configurationConfigMap
        certificateManager internalMgrSecret tlsSecret] by blast
  with t show "Reconcile_IA ia_env =
           ([StatusOnCRFound,
             StatusSetDegraded
               ''Waiting for scanner api access service account secret to be available'' []],
            empty_Result, None)" by simp
next
  assume "client_Get_RuntimeSecurity rs_env = Inr rs \<and>
    GetInstallation rs_env = Inr (TigeraSecureEnterprise, rs_installation) \<and>
    GetNetworkingPullSecrets rs_env rs_installation = Inr rs_pullSecrets"
    and "GetElasticsearchClusterConfig rs_env = Inl es_err"
  then show "Reconcile_RS rs_env =
           (if IsNotFound es_err
            then ([StatusOnCRFound,
                   RS_SetDegraded rs_env
                     ''Elasticsearch cluster configuration is not available, waiting for it to become available''
                     (Error es_err)],
                  empty_Result, None)
            else ([StatusOnCRFound,
                   RS_SetDegraded rs_env
                     ''Failed to get the elasticsearch cluster configuration'' (Error es_err)],
                  empty_Result, Some es_err))"
    using RS_elasticsearch_config_read_failure [of rs_env rs rs_installation rs_pullSecrets es_err]
    by blast
next
  assume "client_Get_RuntimeSecurity rs_env = Inr rs \<and>
    GetInstallation rs_env = Inr (TigeraSecureEnterprise, rs_installation) \<and>
    GetNetworkingPullSecrets rs_env rs_installation = Inr rs_pullSecrets"
    and "GetElasticsearchClusterConfig rs_env = Inr esClusterConfig \<and>
     ElasticsearchSecrets rs_env [ElasticsearchSashaJobUserSecretName] = Inl secrets_err"
  then show "Reconcile_RS rs_env =
           (if IsNotFound secrets_err
            then ([StatusOnCRFound,
                   RS_SetDegraded rs_env
                     ''Elasticsearch secrets are not available yet, waiting until they become available''
                     (Error secrets_err)],
                  empty_Result, None)
            else ([StatusOnCRFound,
                   RS_SetDegraded rs_env ''Failed to get Elasticsearch credentials''
                     (Error secrets_err)],
                  empty_Result, Some secrets_err))"
    using RS_elasticsearch_secrets_read_failure
      [of rs_env rs rs_installation rs_pullSecrets esClusterConfig secrets_err]
    by blast
qed

theorem prerequisite_read_failures_witness:
  "IsNotFound sample_not_found \<and> \<not> IsNotFound sample_timeout \<and>
   Reconcile_IA
     ((sample_ia_cluster TigeraSecureEnterprise True ''https://proxy'')
        \<lparr>GetImageAssuranceConfigurationConfigMap := Inl sample_not_found\<rparr>)
   = ([StatusOnCRFound,
       StatusSetDegraded ''tigera-image-assurance-config ConfigMap not found''
         (Error sample_not_found)],
      empty_Result, None) \<and>
   Reconcile_IA
     ((sample_ia_cluster TigeraSecureEnterprise True ''https://proxy'')
        \<lparr>GetImageAssuranceConfigurationConfigMap := Inl sample_timeout\<rparr>)
   = ([StatusOnCRFound,
       StatusSetDegraded ''Error retrieving image assurance configuration''
         (Error sample_timeout)],
      empty_Result, Some sample_timeout) \<and>
   Reconcile_IA
     ((sample_ia_cluster TigeraSecureEnterprise True ''https://proxy'')
        \<lparr>client_Get_ServiceAccount := (\<lambda>name ns. Inl sample_not_found)\<rparr>)
   = ([StatusOnCRFound,
       StatusSetDegraded ''Error in retrieving scanner API access token''
         (Error sample_not_found)],
      empty_Result, Some sample_not_found) \<and>
   Reconcile_RS
     ((sample_rs_cluster TigeraSecureEnterprise True)
        \<lparr>GetElasticsearchClusterConfig := Inl sample_not_found\<rparr>)
   = ([StatusOnCRFound,
       StatusSetDegradedErr ''Unknown''
         ''Elasticsearch cluster configuration is not available, waiting for it to become available''
         (Some \<lparr>IsNotFound = False, Error = ''the requested resource was not found''\<rparr>)],
      empty_Result, None)"
proof -
  let ?ia = "sample_ia_cluster TigeraSecureEnterprise True ''https://proxy''"
  let ?cm = "\<lambda>e. ?ia\<lparr>GetImageAssuranceConfigurationConfigMap := Inl e\<rparr>"
  let ?sa = "?ia\<lparr>client_Get_ServiceAccount := (\<lambda>name ns. Inl sample_not_found)\<rparr>"
  let ?rs = "(sample_rs_cluster TigeraSecureEnterprise True)
        \<lparr>GetElasticsearchClusterConfig := Inl sample_not_found\<rparr>"
  note t = prerequisite_read_failures
      [where ia = "sample_ia ''https://proxy''"
         and variant = TigeraSecureEnterprise and installation = sample_installation
         and pullSecrets = "[sample_secret ''tigera-pull-secret'']"
         and configurationConfigMap = sample_configuration_configmap
         and certificateManager = sample_certificate_manager
         and internalMgrSecret = "Certificate ''internal-manager-tls''"
         and tlsSecret = "Some (sample_secret ''tigera-image-assurance-api-cert'')"
         and rs = sample_rs and rs_installation = sample_installation
         and rs_pullSecrets = "[sample_secret ''tigera-pull-secret'']"]
  have nf: "IsNotFound sample_not_found" "\<not> IsNotFound sample_timeout"
    by (simp_all add: sample_not_found_def sample_timeout_def)
  have h1: "GetImageAssurance (?cm e) = Inr (sample_ia ''https://proxy'') \<and>
    GetInstallation (?cm e) = Inr (TigeraSecureEnterprise, sample_installation) \<and>
    GetNetworkingPullSecrets (?cm e) sample_installation
      = Inr [sample_secret ''tigera-pull-secret''] \<and>
    GetImageAssuranceConfigurationConfigMap (?cm e) = Inl e" for e
    by (simp add: sample_ia_cluster_def)
  have c1: "Reconcile_IA (?cm sample_not_found) =
      ([StatusOnCRFound,
        StatusSetDegraded ''tigera-image-assurance-config ConfigMap not found''
          (Error sample_not_found)],
       empty_Result, None)"
    using mp [OF conjunct1 [OF t [where ia_env = "?cm sample_not_found"
                and err = sample_not_found]] h1 [of sample_not_found]] nf
    by (simp add: sample_ia_cluster_def sample_names_def)
  have c2: "Reconcile_IA (?cm sample_timeout) =
      ([StatusOnCRFound,
        StatusSetDegraded ''Error retrieving image assurance configuration''
          (Error sample_timeout)],
       empty_Result, Some sample_timeout)"
    using mp [OF conjunct1 [OF t [where ia_env = "?cm sample_timeout"
                and err = sample_timeout]] h1 [of sample_timeout]] nf
    by simp
  have h2: "GetImageAssurance ?sa = Inr (sample_ia ''https://proxy'') \<and>
    GetInstallation ?sa = Inr (TigeraSecureEnterprise, sample_installation) \<and>
    GetNetworkingPullSecrets ?sa sample_installation = Inr [sample_secret ''tigera-pull-secret''] \<and>
    GetImageAssuranceConfigurationConfigMap ?sa = Inr sample_configuration_configmap \<and>
    APIProxyURL (sample_ia ''https://proxy'') \<noteq> [] \<and>
    certificatemanager_Create ?sa sample_installation (clusterDomain ?sa)
      = Inr sample_certificate_manager \<and>
    GetCertificate sample_certificate_manager (ManagerInternalTLSSecretName ?sa)
      (OperatorNamespace ?sa) = Inr (Some (Certificate ''internal-manager-tls'')) \<and>
    getAPICertSecret ?sa = Inr (Some (sample_secret ''tigera-image-assurance-api-cert''))"
    by (simp add: sample_ia_cluster_def sample_ia_def sample_certificate_manager_def
        getAPICertSecret_def)
  have sa: "client_Get_ServiceAccount ?sa (ScannerAPIAccessServiceAccountName ?sa)
       (OperatorNamespace ?sa) = Inl sample_not_found"
    by simp
  note t2 = mp [OF conjunct1 [OF conjunct2 [OF t [where ia_env = ?sa
                and sa_err = sample_not_found and token_err = sample_not_found]]] h2]
  have tok: "getAPIAccessToken ?sa (ScannerAPIAccessServiceAccountName ?sa) = Inl sample_not_found"
    using mp [OF conjunct1 [OF t2] sa] .
  have c3: "Reconcile_IA ?sa =
      ([StatusOnCRFound,
        StatusSetDegraded ''Error in retrieving scanner API access token''
          (Error sample_not_found)],
       empty_Result, Some sample_not_found)"
    using mp [OF conjunct1 [OF conjunct2 [OF t2]] tok] .
  have h3: "client_Get_RuntimeSecurity ?rs = Inr sample_rs \<and>
    GetInstallation ?rs = Inr (TigeraSecureEnterprise, sample_installation) \<and>
    GetNetworkingPullSecrets ?rs sample_installation = Inr [sample_secret ''tigera-pull-secret'']"
    by (simp add: sample_rs_cluster_def)
  have es: "GetElasticsearchClusterConfig ?rs = Inl sample_not_found"
    by simp
  have c4: "Reconcile_RS ?rs =
      ([StatusOnCRFound,
       StatusSetDegradedErr ''Unknown''
         ''Elasticsearch cluster configuration is not available, waiting for it to become available''
         (Some \<lparr>IsNotFound = False, Error = ''the requested resource was not found''\<rparr>)],
      empty_Result, None)"
    using mp [OF conjunct1 [OF mp [OF conjunct2 [OF conjunct2 [OF t [where rs_env = ?rs
                and es_err = sample_not_found]]] h3]] es] nf
    by (simp add: RS_SetDegraded_def sample_rs_cluster_def sample_not_found_def)
  from nf c1 c2 c3 c4 show ?thesis by simp
qed

text \<open>
  The scanner's service account does not exist: the read answers not-found, and the pass
  returns that error.
\<close>

theorem scanner_service_account_not_found_counterexample:
  "IsNotFound sample_not_found \<and>
   client_Get_ServiceAccount
     ((sample_ia_cluster TigeraSecureEnterprise True ''https://proxy'')
        \<lparr>client_Get_ServiceAccount := (\<lambda>name ns. Inl sample_not_found)\<rparr>)
     ''tigera-image-assurance-scanner-api-access'' ''tigera-operator'' = Inl sample_not_found \<and>
   Reconcile_IA
     ((sample_ia_cluster TigeraSecureEnterprise True ''https://proxy'')
        \<lparr>client_Get_ServiceAccount := (\<lambda>name ns. Inl sample_not_found)\<rparr>)
   = ([StatusOnCRFound,
       StatusSetDegraded ''Error in retrieving scanner API access token''
         ''the requested resource was not found''],
      empty_Result, Some sample_not_found)"
  by (simp add: sample_ia_cluster_def sample_ia_def Reconcile_IA_def
      IA_certificates_def getAPICertSecret_def getAPIAccessToken_def
      sample_certificate_manager_def sample_not_found_def after_def Let_def)

end
